theory Spec2Isabelle
  imports Complex_Main "HOL-Library.Multiset"
begin

section \<open>Data\<close>

text \<open>
  The repository holds two scripts that draw a doughnut chart with the library d3
  (version 3: \<open>d3.layout.pie\<close>, \<open>d3.svg.arc\<close>, \<open>d3.scale.category20c\<close>):
  \<open>src/unnamed/part_000\<close> and \<open>src/javascripts/piechart.js\<close>. A script is a sequence
  of calls into the library, so the embedding has two layers: the library functions the
  scripts call, modelled as d3 version 3 behaves, and the scripts themselves, statement
  by statement. JavaScript numbers are modelled as real numbers: rounding, infinities
  and NaN are outside the model, and where the source would divide by zero the model
  writes out the branch the library takes.
\<close>

datatype error = ReferenceError string | TypeError string

text \<open>An element of \<open>inputData\<close>: \<open>{"name": ..., "value": ...}\<close>.\<close>

record datum =
  name :: string
  val :: real

text \<open>The objects \<open>d3.layout.pie\<close> returns, one for each datum.\<close>

record pie_arc =
  data :: datum
  arc_val :: real
  startAngle :: real
  endAngle :: real
  padAngle :: real

text \<open>
  The JavaScript values the scripts read from a datum or from an arc object and write
  into the tooltip.
\<close>

datatype jsval = Undefined | Num real | Str string | Object datum

definition inputData :: "datum list" where
  "inputData =
     [\<lparr>name = ''Name 1'', val = 10\<rparr>, \<lparr>name = ''Name 2'', val = 7\<rparr>,
      \<lparr>name = ''Name 3'', val = 5\<rparr>, \<lparr>name = ''Name 4'', val = 2\<rparr>,
      \<lparr>name = ''Name 5'', val = 1\<rparr>, \<lparr>name = ''Name 6'', val = 1\<rparr>]"

section \<open>The pie layout of d3\<close>

text \<open>
  Modelled from the spec: \<open>d3.layout.pie\<close> is library code, not under \<open>src/\<close>. Section
  4.1 of the spec: the layout partitions the full circle (0 to \<open>2 * pi\<close>) among the
  segments in proportion to each segment's value relative to the sum of all values, and
  keeps the input order when sorting is disabled. What the spec leaves open follows
  version 3.5 of the library: a layout has a value accessor and a comparator; the
  default comparator orders by descending value and \<open>.sort(null)\<close>, which is \<open>None\<close>
  here, disables it; the scripts leave the start angle \<open>0\<close>, the end angle \<open>2 * pi\<close> and
  the pad angle \<open>0\<close> as they are.
\<close>

datatype pie_sort = ByValue | By "datum \<Rightarrow> datum \<Rightarrow> real"

record pie_layout =
  sort_cmp :: "pie_sort option"
  value_fn :: "datum \<Rightarrow> error + real"

definition tau :: real where
  "tau = 2 * pi"

definition pie_startAngle :: real where
  "pie_startAngle = 0"

definition pie_endAngle :: real where
  "pie_endAngle = tau"

definition pie_padAngle :: real where
  "pie_padAngle = 0"

text \<open>\<open>data.map(f)\<close> for an \<open>f\<close> that may throw: the first exception ends the loop.\<close>

fun call_each :: "('a \<Rightarrow> error + 'b) \<Rightarrow> 'a list \<Rightarrow> error + 'b list" where
  "call_each f [] = Inr []"
| "call_each f (x # xs) =
     (case f x of
        Inl e \<Rightarrow> Inl e
      | Inr y \<Rightarrow> (case call_each f xs of Inl e \<Rightarrow> Inl e | Inr ys \<Rightarrow> Inr (y # ys)))"

text \<open>
  \<open>index.sort(cmp)\<close>: \<open>cmp i j < 0\<close> puts \<open>i\<close> first. The order of elements that
  compare equal depends on the engine; the model keeps their order (an insertion sort).
\<close>

fun insert_by :: "('a \<Rightarrow> 'a \<Rightarrow> real) \<Rightarrow> 'a \<Rightarrow> 'a list \<Rightarrow> 'a list" where
  "insert_by cmp x [] = [x]"
| "insert_by cmp x (y # ys) =
     (if cmp x y \<le> 0 then x # y # ys else y # insert_by cmp x ys)"

definition sort_by :: "('a \<Rightarrow> 'a \<Rightarrow> real) \<Rightarrow> 'a list \<Rightarrow> 'a list" where
  "sort_by cmp xs = foldr (insert_by cmp) xs []"

definition d3_sum :: "real list \<Rightarrow> real" where
  "d3_sum vs = sum_list vs"

text \<open>
  The loop \<open>index.forEach(function(i) { arcs[i] = {..., startAngle: a,
  endAngle: a += v * k + pa, ...} })\<close>: the running angle \<open>a\<close> is threaded through the
  indices in the order of \<open>index\<close>, and each arc is stored at its datum's position.
\<close>

fun assign :: "datum list \<Rightarrow> real list \<Rightarrow> real \<Rightarrow> real \<Rightarrow> real \<Rightarrow> nat list \<Rightarrow> real \<Rightarrow>
    pie_arc option list \<Rightarrow> pie_arc option list" where
  "assign ds vs k pa p [] a arcs = arcs"
| "assign ds vs k pa p (i # js) a arcs =
     assign ds vs k pa p js (a + (vs ! i * k + pa))
       (arcs[i := Some \<lparr>data = ds ! i, arc_val = vs ! i, startAngle = a,
                        endAngle = a + (vs ! i * k + pa), padAngle = p\<rparr>])"

text \<open>
  The function \<open>pie(data)\<close>. With \<open>n = 0\<close> the source computes
  \<open>Math.min(Infinity, padAngle)\<close>, which is the pad angle; \<open>k = sum ? ... : 0\<close> is the
  library's own guard against a zero total.
\<close>

definition pie :: "pie_layout \<Rightarrow> datum list \<Rightarrow> error + pie_arc list" where
  "pie lay ds =
     (case call_each (value_fn lay) ds of
        Inl e \<Rightarrow> Inl e
      | Inr vs \<Rightarrow>
          (let n = length ds;
               a = pie_startAngle;
               da = pie_endAngle - a;
               p = (if n = 0 then pie_padAngle else min (\<bar>da\<bar> / real n) pie_padAngle);
               pa = p * (if da < 0 then - 1 else 1);
               s = d3_sum vs;
               k = (if s = 0 then 0 else (da - real n * pa) / s);
               index = (case sort_cmp lay of
                          None \<Rightarrow> [0..<n]
                        | Some ByValue \<Rightarrow> sort_by (\<lambda>i j. vs ! j - vs ! i) [0..<n]
                        | Some (By f) \<Rightarrow> sort_by (\<lambda>i j. f (ds ! i) (ds ! j)) [0..<n]);
               arcs = assign ds vs k pa p index a (replicate n None)
           in Inr (concat (map (\<lambda>x. case x of None \<Rightarrow> [] | Some y \<Rightarrow> [y]) arcs))))"

text \<open>
  The statements of \<open>pie(data)\<close> after the first, with the values already computed:
  the same code as in \<open>pie\<close> above (lemma \<open>pie_by_pie_arcs\<close>). \<open>piechart.js\<close>, whose
  accessor returns any JavaScript value, is modelled through it.
\<close>

definition pie_arcs :: "pie_sort option \<Rightarrow> datum list \<Rightarrow> real list \<Rightarrow> pie_arc list" where
  "pie_arcs cmp ds vs =
     (let n = length ds;
          a = pie_startAngle;
          da = pie_endAngle - a;
          p = (if n = 0 then pie_padAngle else min (\<bar>da\<bar> / real n) pie_padAngle);
          pa = p * (if da < 0 then - 1 else 1);
          s = d3_sum vs;
          k = (if s = 0 then 0 else (da - real n * pa) / s);
          index = (case cmp of
                     None \<Rightarrow> [0..<n]
                   | Some ByValue \<Rightarrow> sort_by (\<lambda>i j. vs ! j - vs ! i) [0..<n]
                   | Some (By f) \<Rightarrow> sort_by (\<lambda>i j. f (ds ! i) (ds ! j)) [0..<n]);
          arcs = assign ds vs k pa p index a (replicate n None)
      in concat (map (\<lambda>x. case x of None \<Rightarrow> [] | Some y \<Rightarrow> [y]) arcs))"

text \<open>
  The layout of \<open>part_000\<close>, lines 60 to 62:
  \<open>d3.layout.pie().sort(null).value(function(d) {return d["value"]; })\<close>.
\<close>

definition part_000_pie :: pie_layout where
  "part_000_pie = \<lparr>sort_cmp = None, value_fn = (\<lambda>d. Inr (val d))\<rparr>"

definition angular_span :: "pie_arc \<Rightarrow> real" where
  "angular_span a = endAngle a - startAngle a"

definition total_span :: "pie_arc list \<Rightarrow> real" where
  "total_span arcs = sum_list (map angular_span arcs)"

definition to_degrees :: "real \<Rightarrow> real" where
  "to_degrees r = r * 180 / pi"

section \<open>Arc generators and the colour scale\<close>

text \<open>
  \<open>height\<close>, \<open>width\<close> and \<open>divId\<close> are the variables at the head of each script
  ("would be inputs to a function").
\<close>

record config =
  width :: real
  height :: real
  divId :: string

definition part_000_config :: config where
  "part_000_config = \<lparr>width = 125, height = 125, divId = ''#pieChartExample''\<rparr>"

definition piechart_config :: config where
  "piechart_config = \<lparr>width = 100, height = 100, divId = ''#pieChartExample''\<rparr>"

definition radius :: "config \<Rightarrow> real" where
  "radius c = min (width c) (height c) / 2"

record arc_gen =
  outerRadius :: real
  innerRadius :: real

definition arc :: "config \<Rightarrow> arc_gen" where
  "arc c = \<lparr>outerRadius = radius c - 10, innerRadius = radius c - 20\<rparr>"

definition arcOver :: "config \<Rightarrow> arc_gen" where
  "arcOver c = \<lparr>outerRadius = radius c, innerRadius = radius c - 15\<rparr>"

definition labelArc :: "config \<Rightarrow> arc_gen" where
  "labelArc c = \<lparr>outerRadius = radius c - 40, innerRadius = radius c - 40\<rparr>"

text \<open>
  A generator of \<open>d3.svg.arc()\<close> maps an arc object to the path string of the ring
  sector with the generator's two radii between the object's two angles. The model
  keeps the four numbers that determine the string.
\<close>

record shape =
  sh_inner :: real
  sh_outer :: real
  sh_start :: real
  sh_end :: real

definition arc_path :: "arc_gen \<Rightarrow> pie_arc \<Rightarrow> shape" where
  "arc_path g d = \<lparr>sh_inner = innerRadius g, sh_outer = outerRadius g,
                    sh_start = startAngle d, sh_end = endAngle d\<rparr>"

text \<open>
  Modelled from the spec: the palette of \<open>d3.scale.category20c()\<close> is library data, not
  under \<open>src/\<close>. Section 4.1 of the spec: a fixed palette of 20 colours, indexed by the
  segment's position. The colour strings are those of version 3 of the library.
\<close>

definition category20c :: "string list" where
  "category20c =
     [''#3182bd'', ''#6baed6'', ''#9ecae1'', ''#c6dbef'',
      ''#e6550d'', ''#fd8d3c'', ''#fdae6b'', ''#fdd0a2'',
      ''#31a354'', ''#74c476'', ''#a1d99b'', ''#c7e9c0'',
      ''#756bb1'', ''#9e9ac8'', ''#bcbddc'', ''#dadaeb'',
      ''#636363'', ''#969696'', ''#bdbdbd'', ''#d9d9d9'']"

fun index_of :: "'a \<Rightarrow> 'a list \<Rightarrow> nat option" where
  "index_of x [] = None"
| "index_of x (y # ys) = (if x = y then Some 0 else map_option Suc (index_of x ys))"

text \<open>
  Modelled from the spec: the scale itself is library code as well. Section 4.1 leaves
  the wrapping to the palette's provider; in version 3 of the library
  an ordinal scale remembers the inputs it has seen (its domain). A new input is added
  to the domain; an input at position \<open>j\<close> of the domain gets the colour at position
  \<open>j\<close> of the range, counted modulo the length of the range.
\<close>

definition ordinal :: "string list \<Rightarrow> nat list \<Rightarrow> nat \<Rightarrow> string \<times> nat list" where
  "ordinal rng seen x =
     (case index_of x seen of
        Some j \<Rightarrow> (rng ! (j mod length rng), seen)
      | None \<Rightarrow> (rng ! (length seen mod length rng), seen @ [x]))"

section \<open>The page\<close>

text \<open>
  What a script appends to the container element: the \<open>svg\<close> element with its \<open>g\<close>
  element and the \<open>path\<close> elements, and the tooltip \<open>div\<close> with its two children. A
  \<open>path\<close> element carries the arc object bound to it by \<open>.data(pie(inputData))\<close>.
  A transition started by a handler runs for 1000 ms; the model records in \<open>d_attr\<close>
  the value the attribute has once the last transition started on the element has ended.
  The text of an element is kept as the value written into it: the element shows the
  string form of that value.
\<close>

datatype attr_val = AStr string | ANum real | ATranslate real real

record path_el =
  d_attr :: "shape option"
  fill :: "string option"
  bound :: pie_arc

record svg_el =
  svg_attrs :: "string \<rightharpoonup> attr_val"
  g_attrs :: "string \<rightharpoonup> attr_val"
  paths :: "path_el list"

record div_el =
  div_attrs :: "string \<rightharpoonup> attr_val"
  div_text :: jsval

record tooltip_el =
  tip_attrs :: "string \<rightharpoonup> attr_val"
  tip_styles :: "string \<rightharpoonup> string"
  tip_kids :: "div_el list"

record page =
  svg :: "svg_el option"
  tooltip :: "tooltip_el option"

definition empty_page :: page where
  "empty_page = \<lparr>svg = None, tooltip = None\<rparr>"

text \<open>
  A document is given by the selectors that find an element in it. The selections of
  the library are not under \<open>src/\<close> either; in version 3, \<open>d3.select\<close> of a selector
  that finds no element is a selection without an element, and \<open>append\<close>, \<open>attr\<close>,
  \<open>style\<close>, \<open>selectAll\<close>, \<open>data\<close>, \<open>enter\<close>, \<open>text\<close>, \<open>html\<close> and \<open>on\<close> skip the
  missing element: no call throws, and nothing is appended. The scripts themselves test
  nothing before they append.
\<close>

type_synonym document = "string \<Rightarrow> bool"

text \<open>
  Selectors as the scripts use them: \<open>.c\<close> selects by class, \<open>#i\<close> by id, and a bare
  word by tag name. All children of the tooltip are \<open>div\<close> elements with one class.
\<close>

datatype selector = ByClass string | ById string | ByTag string

fun parse_selector :: "string \<Rightarrow> selector" where
  "parse_selector [] = ByTag []"
| "parse_selector (c # cs) =
     (if c = CHR ''.'' then ByClass cs else if c = CHR ''#'' then ById cs else ByTag (c # cs))"

fun matches :: "selector \<Rightarrow> div_el \<Rightarrow> bool" where
  "matches (ByClass c) e = (div_attrs e ''class'' = Some (AStr c))"
| "matches (ById i) e = (div_attrs e ''id'' = Some (AStr i))"
| "matches (ByTag t) e = (t = ''div'')"

text \<open>\<open>.text(v)\<close> and \<open>.html(v)\<close> write the empty string for \<open>null\<close> and \<open>undefined\<close>.\<close>

fun to_text :: "jsval \<Rightarrow> jsval" where
  "to_text Undefined = Str []"
| "to_text v = v"

text \<open>\<open>tooltip.select(s).text(v)\<close>: the first child that matches, if there is one.\<close>

fun set_first :: "selector \<Rightarrow> jsval \<Rightarrow> div_el list \<Rightarrow> div_el list" where
  "set_first s v [] = []"
| "set_first s v (e # es) =
     (if matches s e then e\<lparr>div_text := to_text v\<rparr> # es else e # set_first s v es)"

fun text_of_first :: "selector \<Rightarrow> div_el list \<Rightarrow> jsval option" where
  "text_of_first s [] = None"
| "text_of_first s (e # es) = (if matches s e then Some (div_text e) else text_of_first s es)"

definition new_svg :: "config \<Rightarrow> svg_el" where
  "new_svg c =
     \<lparr>svg_attrs = [''width'' \<mapsto> ANum (width c), ''height'' \<mapsto> ANum (height c),
                  ''class'' \<mapsto> AStr ''pieChart''],
      g_attrs = [''transform'' \<mapsto> ATranslate (width c / 2) (height c / 2)],
      paths = []\<rparr>"

definition new_div :: "string \<Rightarrow> div_el" where
  "new_div cls =
     \<lparr>div_attrs = [''class'' \<mapsto> AStr cls, ''text-anchor'' \<mapsto> AStr ''middle''],
      div_text = Str []\<rparr>"

definition part_000_tooltip :: tooltip_el where
  "part_000_tooltip =
     \<lparr>tip_attrs = [''class'' \<mapsto> AStr ''pieChartTooltip'', ''position'' \<mapsto> AStr ''absolute'',
                  ''z-index'' \<mapsto> AStr ''10''],
      tip_styles = [''display'' \<mapsto> ''none''],
      tip_kids = [new_div ''tooltipKey'', new_div ''tooltipValue'']\<rparr>"

definition piechart_tooltip :: "config \<Rightarrow> tooltip_el" where
  "piechart_tooltip c =
     \<lparr>tip_attrs = [''class'' \<mapsto> AStr ''pieChartTooltip'',
                  ''transform'' \<mapsto> ATranslate (width c / 2) (height c / 2)],
      tip_styles = Map.empty,
      tip_kids = [new_div ''tooltipKey'', new_div ''tooltipValue'']\<rparr>"

text \<open>
  \<open>.attr('fill', function(d, i) { return colour(i); })\<close>: the scale is called once for
  each new element, in order, with the element's index.
\<close>

fun fill_each :: "string list \<Rightarrow> nat list \<Rightarrow> nat \<Rightarrow> path_el list \<Rightarrow> path_el list" where
  "fill_each rng seen i [] = []"
| "fill_each rng seen i (p # ps) =
     (case ordinal rng seen i of
        (col, seen') \<Rightarrow> p\<lparr>fill := Some col\<rparr> # fill_each rng seen' (Suc i) ps)"

text \<open>
  \<open>svg.selectAll('path').data(arcs).enter().append('path').attr('d', arc).attr('fill', ...)\<close>:
  the \<open>g\<close> element is new and has no \<open>path\<close>, so every arc object enters.
\<close>

definition new_paths :: "config \<Rightarrow> pie_arc list \<Rightarrow> path_el list" where
  "new_paths c arcs =
     fill_each category20c [] 0
       (map (\<lambda>p. p\<lparr>d_attr := Some (arc_path (arc c) (bound p))\<rparr>)
          (map (\<lambda>a. \<lparr>d_attr = None, fill = None, bound = a\<rparr>) arcs))"

section \<open>The script part_000\<close>

text \<open>
  Lines 18 to 70. The result is the exception the script ends with, if any, and the
  page as the script leaves it.
\<close>

definition part_000_build :: "config \<Rightarrow> document \<Rightarrow> datum list \<Rightarrow> error option \<times> page" where
  "part_000_build c doc ds =
     (let svg0 = (if doc (divId c) then Some (new_svg c) else None);
          tooltip0 = (if doc (divId c) then Some part_000_tooltip else None)
      in case pie part_000_pie ds of
           Inl e \<Rightarrow> (Some e, \<lparr>svg = svg0, tooltip = tooltip0\<rparr>)
         | Inr arcs \<Rightarrow>
             (None, \<lparr>svg = map_option (\<lambda>s. s\<lparr>paths := new_paths c arcs\<rparr>) svg0,
                     tooltip = tooltip0\<rparr>))"

text \<open>
  The handlers run on the element \<open>this\<close>, the \<open>path\<close> at index \<open>i\<close>, with its bound
  arc object \<open>d\<close>.
\<close>

definition update_path :: "nat \<Rightarrow> (path_el \<Rightarrow> path_el) \<Rightarrow> page \<Rightarrow> page" where
  "update_path i f p =
     p\<lparr>svg := map_option (\<lambda>s. s\<lparr>paths := (paths s)[i := f (paths s ! i)]\<rparr>) (svg p)\<rparr>"

definition set_display :: "string \<Rightarrow> page \<Rightarrow> page" where
  "set_display v p =
     p\<lparr>tooltip := map_option (\<lambda>t. t\<lparr>tip_styles := (tip_styles t)(''display'' \<mapsto> v)\<rparr>) (tooltip p)\<rparr>"

definition path_at :: "page \<Rightarrow> nat \<Rightarrow> path_el option" where
  "path_at p i =
     (case svg p of
        None \<Rightarrow> None
      | Some s \<Rightarrow> (if i < length (paths s) then Some (paths s ! i) else None))"

text \<open>Lines 71 to 78.\<close>

definition part_000_mouseover :: "config \<Rightarrow> nat \<Rightarrow> page \<Rightarrow> page" where
  "part_000_mouseover c i p =
     set_display ''inline''
       (update_path i (\<lambda>e. e\<lparr>d_attr := Some (arc_path (arcOver c) (bound e))\<rparr>) p)"

text \<open>
  Lines 79 to 88; \<open>x\<close> and \<open>y\<close> are the pointer's coordinates relative to the tooltip's
  parent, as \<open>d3.mouse\<close> returns them. \<open>tooltip.node()\<close> of an empty selection is
  \<open>null\<close>, and reading \<open>parentElement\<close> from it throws before anything is written.
\<close>

definition part_000_mousemove :: "nat \<Rightarrow> real \<Rightarrow> real \<Rightarrow> pie_arc \<Rightarrow> page \<Rightarrow> error + page" where
  "part_000_mousemove i x y d p =
     (case tooltip p of
        None \<Rightarrow> Inl (TypeError ''parentElement'')
      | Some t \<Rightarrow>
          Inr (p\<lparr>tooltip := Some
            (t\<lparr>tip_kids :=
                 set_first (parse_selector ''tooltipValue'') (Num (val (data d)))
                   (set_first (parse_selector ''.tooltipKey'') (Str (name (data d))) (tip_kids t)),
               tip_attrs := (tip_attrs t)(''transform'' \<mapsto> ATranslate (x - 10) (y - 10))\<rparr>)\<rparr>))"

text \<open>Lines 89 to 95.\<close>

definition part_000_mouseout :: "config \<Rightarrow> nat \<Rightarrow> page \<Rightarrow> page" where
  "part_000_mouseout c i p =
     set_display ''none''
       (update_path i (\<lambda>e. e\<lparr>d_attr := Some (arc_path (arc c) (bound e))\<rparr>) p)"

text \<open>
  Pointer events. An event on the segment at index \<open>i\<close> needs its \<open>path\<close> element; an
  exception in a handler ends the handler and leaves the page as it is at that point.
\<close>

datatype event = MouseOver nat | MouseMove nat real real | MouseOut nat

fun part_000_step :: "config \<Rightarrow> page \<Rightarrow> event \<Rightarrow> page" where
  "part_000_step c p (MouseOver i) =
     (case path_at p i of None \<Rightarrow> p | Some e \<Rightarrow> part_000_mouseover c i p)"
| "part_000_step c p (MouseMove i x y) =
     (case path_at p i of
        None \<Rightarrow> p
      | Some e \<Rightarrow> (case part_000_mousemove i x y (bound e) p of Inl err \<Rightarrow> p | Inr p' \<Rightarrow> p'))"
| "part_000_step c p (MouseOut i) =
     (case path_at p i of None \<Rightarrow> p | Some e \<Rightarrow> part_000_mouseout c i p)"

definition part_000_run :: "config \<Rightarrow> page \<Rightarrow> event list \<Rightarrow> page" where
  "part_000_run c p evs = foldl (part_000_step c) p evs"

section \<open>The script piechart.js\<close>

text \<open>
  The script reads the fields of a datum and of an arc object through the identifiers
  \<open>name\<close> and \<open>value\<close>, which it does not declare. An environment gives the global
  variables that exist beside the script's own; an identifier with no binding throws a
  ReferenceError. Properties inherited from \<open>Object.prototype\<close> are not modelled, and a
  key that is not a string converts to a string that names no property of these objects.
\<close>

type_synonym env = "string \<rightharpoonup> jsval"

definition lookup :: "env \<Rightarrow> string \<Rightarrow> error + jsval" where
  "lookup env x = (case env x of None \<Rightarrow> Inl (ReferenceError x) | Some v \<Rightarrow> Inr v)"

fun datum_get :: "datum \<Rightarrow> jsval \<Rightarrow> jsval" where
  "datum_get d (Str k) =
     (if k = ''name'' then Str (name d) else if k = ''value'' then Num (val d) else Undefined)"
| "datum_get d k = Undefined"

fun arc_get :: "pie_arc \<Rightarrow> jsval \<Rightarrow> jsval" where
  "arc_get a (Str k) =
     (if k = ''data'' then Object (data a)
      else if k = ''value'' then Num (arc_val a)
      else if k = ''startAngle'' then Num (startAngle a)
      else if k = ''endAngle'' then Num (endAngle a)
      else if k = ''padAngle'' then Num (padAngle a)
      else Undefined)"
| "arc_get a k = Undefined"

text \<open>Line 60: \<open>function(d) {console.log(d); return d[value]; }\<close>, called on a datum.\<close>

definition piechart_value :: "env \<Rightarrow> datum \<Rightarrow> error + jsval" where
  "piechart_value env d =
     (case lookup env ''value'' of Inl e \<Rightarrow> Inl e | Inr k \<Rightarrow> Inr (datum_get d k))"

text \<open>
  The first statement of \<open>pie(data)\<close> calls the accessor on each datum, in
  \<open>.data(pie(inputData))\<close> on line 64.
\<close>

definition piechart_values :: "env \<Rightarrow> datum list \<Rightarrow> error + jsval list" where
  "piechart_values env ds = call_each (piechart_value env) ds"

text \<open>Lines 74 and 75: the arguments \<open>d[name]\<close> and \<open>d[value]\<close>, \<open>d\<close> an arc object.\<close>

definition piechart_key_arg :: "env \<Rightarrow> pie_arc \<Rightarrow> error + jsval" where
  "piechart_key_arg env d =
     (case lookup env ''name'' of Inl e \<Rightarrow> Inl e | Inr k \<Rightarrow> Inr (arc_get d k))"

definition piechart_value_arg :: "env \<Rightarrow> pie_arc \<Rightarrow> error + jsval" where
  "piechart_value_arg env d =
     (case lookup env ''value'' of Inl e \<Rightarrow> Inl e | Inr k \<Rightarrow> Inr (arc_get d k))"

definition set_kid :: "string \<Rightarrow> jsval \<Rightarrow> page \<Rightarrow> page" where
  "set_kid sel v p =
     p\<lparr>tooltip := map_option
         (\<lambda>t. t\<lparr>tip_kids := set_first (parse_selector sel) v (tip_kids t)\<rparr>) (tooltip p)\<rparr>"

text \<open>Lines 69 to 77: the statements in order, up to the first exception.\<close>

definition piechart_mouseover :: "env \<Rightarrow> config \<Rightarrow> nat \<Rightarrow> pie_arc \<Rightarrow> page \<Rightarrow> error option \<times> page" where
  "piechart_mouseover env c i d p =
     (let p1 = update_path i (\<lambda>e. e\<lparr>d_attr := Some (arc_path (arcOver c) (bound e))\<rparr>) p
      in case piechart_key_arg env d of
           Inl e \<Rightarrow> (Some e, p1)
         | Inr k \<Rightarrow>
             (let p2 = set_kid ''.tooltipKey'' k p1
              in case piechart_value_arg env d of
                   Inl e \<Rightarrow> (Some e, p2)
                 | Inr v \<Rightarrow> (None, set_display ''block'' (set_kid ''tooltipValue'' v p2))))"

text \<open>Lines 78 to 83.\<close>

definition piechart_mouseout :: "config \<Rightarrow> nat \<Rightarrow> page \<Rightarrow> page" where
  "piechart_mouseout c i p =
     set_display ''none''
       (update_path i (\<lambda>e. e\<lparr>d_attr := Some (arc_path (arc c) (bound e))\<rparr>) p)"

text \<open>The script has no handler for pointer moves.\<close>

fun piechart_step :: "env \<Rightarrow> config \<Rightarrow> page \<Rightarrow> event \<Rightarrow> page" where
  "piechart_step env c p (MouseOver i) =
     (case path_at p i of None \<Rightarrow> p | Some e \<Rightarrow> snd (piechart_mouseover env c i (bound e) p))"
| "piechart_step env c p (MouseMove i x y) = p"
| "piechart_step env c p (MouseOut i) =
     (case path_at p i of None \<Rightarrow> p | Some e \<Rightarrow> piechart_mouseout c i p)"

definition piechart_run :: "env \<Rightarrow> config \<Rightarrow> page \<Rightarrow> event list \<Rightarrow> page" where
  "piechart_run env c p evs = foldl (piechart_step env c) p evs"

text \<open>
  The layout applies unary plus to what the accessor returns, which throws for none of
  these values. A number stays as it is. \<open>undefined\<close> and an object become NaN, and a
  string becomes the number it reads as, or NaN: the real numbers of this model hold no
  NaN and the model reads no strings, so for these the conversion gives \<open>None\<close>.
\<close>

fun as_number :: "jsval \<Rightarrow> real option" where
  "as_number (Num r) = Some r"
| "as_number v = None"

definition piechart_numbers :: "jsval list \<Rightarrow> real list option" where
  "piechart_numbers vs = those (map as_number vs)"

text \<open>
  Lines 18 to 83 of \<open>piechart.js\<close>. The result is the exception the script ends with, if
  any, and the page as the script leaves it. \<open>pie(inputData)\<close> on line 64 is the argument
  of \<open>.data\<close>: the accessor of line 60 runs, and may throw, whether or not the selection
  of line 63 has an element; when it throws, the \<open>svg\<close> element and the tooltip of lines
  18 to 38 are in the page and no \<open>path\<close> is. Without the container the selection binds
  the arc objects to nothing. The page is \<open>None\<close> where paths are drawn from values
  that are not numbers (see \<open>as_number\<close>).
\<close>

definition piechart_build ::
    "env \<Rightarrow> config \<Rightarrow> document \<Rightarrow> datum list \<Rightarrow> error option \<times> page option" where
  "piechart_build env c doc ds =
     (let svg0 = (if doc (divId c) then Some (new_svg c) else None);
          tooltip0 = (if doc (divId c) then Some (piechart_tooltip c) else None)
      in case piechart_values env ds of
           Inl e \<Rightarrow> (Some e, Some \<lparr>svg = svg0, tooltip = tooltip0\<rparr>)
         | Inr vs \<Rightarrow>
             (None,
              case svg0 of
                None \<Rightarrow> Some \<lparr>svg = None, tooltip = tooltip0\<rparr>
              | Some s \<Rightarrow>
                  map_option
                    (\<lambda>rs. \<lparr>svg = Some (s\<lparr>paths := new_paths c (pie_arcs None ds rs)\<rparr>),
                           tooltip = tooltip0\<rparr>)
                    (piechart_numbers vs)))"

section \<open>What a page shows\<close>

definition segments :: "page \<Rightarrow> path_el list" where
  "segments p = (case svg p of None \<Rightarrow> [] | Some s \<Rightarrow> paths s)"

definition shape_at :: "page \<Rightarrow> nat \<Rightarrow> shape option" where
  "shape_at p i = (case path_at p i of None \<Rightarrow> None | Some e \<Rightarrow> d_attr e)"

definition display :: "page \<Rightarrow> string option" where
  "display p = (case tooltip p of None \<Rightarrow> None | Some t \<Rightarrow> tip_styles t ''display'')"

definition kids :: "page \<Rightarrow> div_el list" where
  "kids p = (case tooltip p of None \<Rightarrow> [] | Some t \<Rightarrow> tip_kids t)"

definition key_text :: "page \<Rightarrow> jsval option" where
  "key_text p = text_of_first (ByClass ''tooltipKey'') (kids p)"

definition value_text :: "page \<Rightarrow> jsval option" where
  "value_text p = text_of_first (ByClass ''tooltipValue'') (kids p)"




text \<open>The \<open>path\<close> element a script appends for the arc object at index \<open>j\<close>.\<close>

definition segment :: "config \<Rightarrow> pie_arc list \<Rightarrow> nat \<Rightarrow> path_el" where
  "segment c arcs j =
     \<lparr>d_attr = Some (arc_path (arc c) (arcs ! j)),
      fill = Some (category20c ! (j mod 20)), bound = arcs ! j\<rparr>"

text \<open>Every handler keeps the arc objects bound to the paths, and the tooltip element.\<close>

definition same_frame :: "page \<Rightarrow> page \<Rightarrow> bool" where
  "same_frame p q \<longleftrightarrow>
     (\<forall>j. map_option bound (path_at q j) = map_option bound (path_at p j)) \<and>
     (tooltip q = None) = (tooltip p = None)"

text \<open>
  The segment of the last pointer-move in a sequence of events, among the moves on one
  of the \<open>n\<close> segments there are. It is used to state what the tooltip shows.
\<close>

fun last_move :: "nat \<Rightarrow> event list \<Rightarrow> nat option" where
  "last_move n [] = None"
| "last_move n (MouseMove i x y # evs) =
     (case last_move n evs of
        Some j \<Rightarrow> Some j
      | None \<Rightarrow> (if i < n then Some i else None))"
| "last_move n (ev # evs) = last_move n evs"

section \<open>The layout in input order\<close>

text \<open>
  What the loop of \<open>pie\<close> computes when the indices are visited in input order: a
  running sum. It is used to state and prove properties of \<open>pie\<close>, not to define it.
\<close>

fun arcs_from :: "real \<Rightarrow> real \<Rightarrow> datum list \<Rightarrow> pie_arc list" where
  "arcs_from k a [] = []"
| "arcs_from k a (d # ds) =
     \<lparr>data = d, arc_val = val d, startAngle = a, endAngle = a + val d * k, padAngle = 0\<rparr>
       # arcs_from k (a + val d * k) ds"

definition scale_of :: "datum list \<Rightarrow> real" where
  "scale_of ds = (if sum_list (map val ds) = 0 then 0 else 2 * pi / sum_list (map val ds))"

section \<open>The layout: helper lemmas\<close>

lemma call_each_total: "call_each (\<lambda>d. Inr (f d)) ds = Inr (map f ds)"
  by (induction ds) auto

lemma assign_upt:
  assumes "vs = map val ds"
  shows "m \<le> length ds \<Longrightarrow> length pre = m \<Longrightarrow>
    assign ds vs k 0 0 [m..<length ds] a (map Some pre @ replicate (length ds - m) None)
      = map Some (pre @ arcs_from k a (drop m ds))"
proof (induction "length ds - m" arbitrary: m pre a)
  case 0
  then show ?case by simp
next
  case (Suc j)
  then have lt: "m < length ds" by simp
  have upt: "[m..<length ds] = m # [Suc m..<length ds]"
    using lt by (simp add: upt_conv_Cons)
  have dr: "drop m ds = ds ! m # drop (Suc m) ds"
    using lt by (simp add: Cons_nth_drop_Suc)
  let ?arc = "\<lparr>data = ds ! m, arc_val = vs ! m, startAngle = a,
                        endAngle = a + (vs ! m * k + 0), padAngle = 0\<rparr>"
  have upd: "(map Some pre @ replicate (length ds - m) None)[m := Some ?arc]
      = map Some (pre @ [?arc]) @ replicate (length ds - Suc m) None"
  proof -
    have "length ds - m = Suc (length ds - Suc m)" using lt by simp
    then show ?thesis using Suc.prems(2) by (simp add: list_update_append)
  qed
  have IH: "assign ds vs k 0 0 [Suc m..<length ds] (a + (vs ! m * k + 0))
       (map Some (pre @ [?arc]) @ replicate (length ds - Suc m) None)
     = map Some ((pre @ [?arc]) @ arcs_from k (a + (vs ! m * k + 0)) (drop (Suc m) ds))"
    using Suc.hyps(1)[of "Suc m" "pre @ [?arc]"] Suc.hyps(2) lt Suc.prems(2) by simp
  show ?case
    unfolding upt assign.simps upd IH dr
    using lt assms by simp
qed

lemma pie_unsorted: "pie part_000_pie ds = Inr (arcs_from (scale_of ds) 0 ds)"
proof -
  have "assign ds (map val ds) k 0 0 [0..<length ds] 0
          (map Some [] @ replicate (length ds - 0) None)
      = map Some ([] @ arcs_from k 0 (drop 0 ds))" for k
    by (rule assign_upt) simp_all
  then have a: "assign ds (map val ds) k 0 0 [0..<length ds] 0 (replicate (length ds) None)
      = map Some (arcs_from k 0 ds)" for k
    by simp
  have c: "concat (map (case_option [] (\<lambda>y. [y]) \<circ> Some) xs) = xs" for xs :: "pie_arc list"
    by (induction xs) auto
  show ?thesis
    by (simp add: pie_def part_000_pie_def call_each_total pie_startAngle_def pie_endAngle_def
        pie_padAngle_def tau_def d3_sum_def Let_def a c scale_of_def)
qed

lemma length_arcs_from: "length (arcs_from k a ds) = length ds"
  by (induction ds arbitrary: a) auto

lemma data_arcs_from: "map data (arcs_from k a ds) = ds"
  by (induction ds arbitrary: a) auto

lemma spans_arcs_from: "map angular_span (arcs_from k a ds) = map (\<lambda>d. val d * k) ds"
  by (induction ds arbitrary: a) (auto simp: angular_span_def)

lemma total_span_arcs_from: "total_span (arcs_from k a ds) = sum_list (map val ds) * k"
  by (simp add: total_span_def spans_arcs_from sum_list_mult_const)

lemma nth_arcs_from:
  "i < length ds \<Longrightarrow>
     data (arcs_from k a ds ! i) = ds ! i \<and>
     startAngle (arcs_from k a ds ! i) = a + sum_list (map val (take i ds)) * k \<and>
     endAngle (arcs_from k a ds ! i) = a + sum_list (map val (take (Suc i) ds)) * k"
proof (induction ds arbitrary: a i)
  case Nil
  then show ?case by simp
next
  case (Cons d ds)
  show ?case
  proof (cases i)
    case 0
    then show ?thesis by simp
  next
    case (Suc j)
    with Cons.prems have "j < length ds" by simp
    from Cons.IH[OF this, of "a + val d * k"] Suc show ?thesis
      by (simp add: algebra_simps)
  qed
qed

lemma sum_val_mset: "mset xs = mset ys \<Longrightarrow> sum_list (map val xs) = sum_list (map val ys)"
proof -
  assume "mset xs = mset ys"
  then have "mset (map val xs) = mset (map val ys)" by (metis mset_map)
  then show ?thesis by (metis sum_mset_sum_list)
qed

lemma sum_val_pos:
  assumes "\<forall>d \<in> set ds. 0 \<le> val d" "\<exists>d \<in> set ds. 0 < val d"
  shows "0 < sum_list (map val ds)"
  using assms
proof (induction ds)
  case Nil
  then show ?case by simp
next
  case (Cons d ds)
  have nn: "0 \<le> sum_list (map val ds)"
    using Cons.prems(1) by (auto intro!: sum_list_nonneg)
  show ?case
  proof (cases "0 < val d")
    case True
    with nn show ?thesis by simp
  next
    case False
    with Cons.prems have "\<exists>d \<in> set ds. 0 < val d" by auto
    with Cons.IH Cons.prems(1) have "0 < sum_list (map val ds)" by simp
    with Cons.prems(1) show ?thesis by (simp add: add_nonneg_pos)
  qed
qed

section \<open>The layout: claims\<close>

text \<open>
  C1 (as amended). For every dataset whose values are non-negative and not all zero, and
  for every ordering of it, the layout of \<open>part_000\<close> returns one arc object for each
  datum, and the angular spans \<open>endAngle - startAngle\<close> add up to \<open>2 * pi\<close>. (Numbers
  are real numbers here: the sum is exact, and the claim's tolerance covers the rounding
  of the floating point arithmetic.)
\<close>

theorem pie_spans_fill_circle:
  assumes "\<forall>d \<in> set ds. 0 \<le> val d" and "\<exists>d \<in> set ds. 0 < val d" and "mset ds' = mset ds"
  shows "\<exists>arcs. pie part_000_pie ds' = Inr arcs \<and> length arcs = length ds' \<and>
           total_span arcs = 2 * pi"
proof -
  have "0 < sum_list (map val ds)" using assms(1,2) by (rule sum_val_pos)
  then have pos: "sum_list (map val ds') \<noteq> 0" using sum_val_mset[OF assms(3)] by simp
  have "total_span (arcs_from (scale_of ds') 0 ds') = 2 * pi"
    using pos by (simp add: total_span_arcs_from scale_of_def)
  then show ?thesis
    by (simp add: pie_unsorted length_arcs_from)
qed

theorem pie_spans_fill_circle_witness:
  "\<exists>arcs. pie part_000_pie (rev inputData) = Inr arcs \<and>
     length arcs = length (rev inputData) \<and> total_span arcs = 2 * pi"
  using pie_spans_fill_circle [of inputData "rev inputData"]
  by (simp add: inputData_def)

text \<open>
  The claim as stated, for every dataset of non-negative values, fails on a dataset
  whose total is zero: the empty dataset has no arc, and for a dataset of zeros the scale
  factor \<open>k\<close> is \<open>0\<close> and every span is \<open>0\<close>.
\<close>

theorem pie_zero_total_counterexample:
  "pie part_000_pie [] = Inr [] \<and> total_span [] \<noteq> 2 * pi \<and>
   pie part_000_pie [\<lparr>name = ''Name 1'', val = 0\<rparr>] =
     Inr [\<lparr>data = \<lparr>name = ''Name 1'', val = 0\<rparr>, arc_val = 0, startAngle = 0, endAngle = 0,
           padAngle = 0\<rparr>] \<and>
   total_span [\<lparr>data = \<lparr>name = ''Name 1'', val = 0\<rparr>, arc_val = 0, startAngle = 0,
                endAngle = 0, padAngle = 0\<rparr>] \<noteq> 2 * pi"
  by (simp add: pie_unsorted scale_of_def total_span_def angular_span_def)

text \<open>
  C2. The layout of \<open>part_000\<close> has no comparator (\<open>.sort(null)\<close>), and for every
  dataset the arc object at position \<open>i\<close> belongs to the datum at position \<open>i\<close> and
  spans from the running total of the values before it to the running total including
  it, both scaled: the circle is divided in input order, with no sorting by value or
  name.
\<close>

theorem pie_keeps_input_order:
  "sort_cmp part_000_pie = None \<and>
   (\<exists>arcs. pie part_000_pie ds = Inr arcs \<and> length arcs = length ds \<and>
     (\<forall>i < length ds.
        data (arcs ! i) = ds ! i \<and>
        startAngle (arcs ! i) = sum_list (map val (take i ds)) * scale_of ds \<and>
        endAngle (arcs ! i) = sum_list (map val (take (Suc i) ds)) * scale_of ds))"
proof -
  have "\<forall>i < length ds.
        data (arcs_from (scale_of ds) 0 ds ! i) = ds ! i \<and>
        startAngle (arcs_from (scale_of ds) 0 ds ! i)
          = sum_list (map val (take i ds)) * scale_of ds \<and>
        endAngle (arcs_from (scale_of ds) 0 ds ! i)
          = sum_list (map val (take (Suc i) ds)) * scale_of ds"
    using nth_arcs_from[of _ ds "scale_of ds" 0] by simp
  then have "\<exists>arcs. pie part_000_pie ds = Inr arcs \<and> length arcs = length ds \<and>
     (\<forall>i < length ds.
        data (arcs ! i) = ds ! i \<and>
        startAngle (arcs ! i) = sum_list (map val (take i ds)) * scale_of ds \<and>
        endAngle (arcs ! i) = sum_list (map val (take (Suc i) ds)) * scale_of ds)"
    by (simp add: pie_unsorted length_arcs_from)
  then show ?thesis by (simp add: part_000_pie_def)
qed

theorem pie_keeps_input_order_witness:
  "\<exists>arcs. pie part_000_pie inputData = Inr arcs \<and> length arcs = length inputData \<and>
     name (data (arcs ! 2)) = ''Name 3'' \<and>
     startAngle (arcs ! 2) = 17 * (2 * pi / 26) \<and> endAngle (arcs ! 2) = 22 * (2 * pi / 26)"
proof -
  from pie_keeps_input_order [of inputData] obtain arcs where
    a: "pie part_000_pie inputData = Inr arcs" and
    b: "\<forall>i < length inputData.
        data (arcs ! i) = inputData ! i \<and>
        startAngle (arcs ! i) = sum_list (map val (take i inputData)) * scale_of inputData \<and>
        endAngle (arcs ! i) = sum_list (map val (take (Suc i) inputData)) * scale_of inputData"
    and l: "length arcs = length inputData"
    by blast
  have "(2::nat) < length inputData" by (simp add: inputData_def)
  with b have "data (arcs ! 2) = inputData ! 2 \<and>
        startAngle (arcs ! 2) = sum_list (map val (take 2 inputData)) * scale_of inputData \<and>
        endAngle (arcs ! 2) = sum_list (map val (take (Suc 2) inputData)) * scale_of inputData"
    by blast
  then show ?thesis using a l
    by (simp add: inputData_def scale_of_def numeral_2_eq_2 numeral_3_eq_3)
qed

text \<open>
  C3. For the dataset of the scripts, whose values add up to 26, the segment of
  \<open>Name 1\<close> spans \<open>10 / 26 * 360\<close> degrees, which is within 0.01 of 138.46 degrees.
\<close>

theorem name_1_spans_138_46_degrees:
  "\<exists>arcs. pie part_000_pie inputData = Inr arcs \<and>
     name (data (arcs ! 0)) = ''Name 1'' \<and>
     to_degrees (angular_span (arcs ! 0)) = 10 / 26 * 360 \<and>
     \<bar>to_degrees (angular_span (arcs ! 0)) - 138.46\<bar> \<le> 0.01"
  by (simp add: pie_unsorted inputData_def scale_of_def angular_span_def to_degrees_def)

text \<open>
  With the default comparator the same function lays the larger value out first, so
  \<open>.sort(null)\<close> is what keeps the input order.
\<close>

lemma pie_sorted_by_value_example:
  "pie \<lparr>sort_cmp = Some ByValue, value_fn = (\<lambda>d. Inr (val d))\<rparr>
     [\<lparr>name = ''a'', val = 1\<rparr>, \<lparr>name = ''b'', val = 3\<rparr>]
   = Inr [\<lparr>data = \<lparr>name = ''a'', val = 1\<rparr>, arc_val = 1, startAngle = 3 * pi / 2,
           endAngle = 2 * pi, padAngle = 0\<rparr>,
          \<lparr>data = \<lparr>name = ''b'', val = 3\<rparr>, arc_val = 3, startAngle = 0,
           endAngle = 3 * pi / 2, padAngle = 0\<rparr>]"
  by (simp add: pie_def pie_startAngle_def pie_endAngle_def pie_padAngle_def tau_def
      d3_sum_def Let_def sort_by_def upt_conv_Cons)

section \<open>The page: helper lemmas\<close>

lemma index_of_None: "x \<notin> set xs \<Longrightarrow> index_of x xs = None"
  by (induction xs) auto

lemma ordinal_fresh: "ordinal rng [0..<i] i = (rng ! (i mod length rng), [0..<Suc i])"
  by (simp add: ordinal_def index_of_None)

lemma fill_each_upt:
  "fill_each rng [0..<i] i ps =
     map (\<lambda>(p, j). p\<lparr>fill := Some (rng ! (j mod length rng))\<rparr>) (zip ps [i..<i + length ps])"
proof (induction ps arbitrary: i)
  case Nil
  then show ?case by simp
next
  case (Cons p ps)
  have "i < i + length (p # ps)" by simp
  then have "[i..<i + length (p # ps)] = i # [Suc i..<i + length (p # ps)]"
    by (rule upt_conv_Cons)
  then have "[i..<i + length (p # ps)] = i # [Suc i..<Suc i + length ps]"
    by simp
  then show ?case
    using Cons.IH[of "Suc i"] by (simp add: ordinal_fresh del: upt_Suc)
qed

lemma new_paths_eq: "new_paths c arcs = map (segment c arcs) [0..<length arcs]"
proof -
  have "fill_each category20c [0..<0] 0 ps =
     map (\<lambda>(p, j). p\<lparr>fill := Some (category20c ! (j mod length category20c))\<rparr>)
       (zip ps [0..<0 + length ps])" for ps
    by (rule fill_each_upt)
  then have f: "fill_each category20c [] 0 ps =
     map (\<lambda>(p, j). p\<lparr>fill := Some (category20c ! (j mod 20))\<rparr>) (zip ps [0..<length ps])" for ps
    by (simp add: category20c_def)
  show ?thesis
    by (rule nth_equalityI) (simp_all add: new_paths_def f segment_def)
qed


lemma part_000_build_eq:
  "part_000_build c doc ds =
     (None, if doc (divId c)
            then \<lparr>svg = Some ((new_svg c)\<lparr>paths :=
                     map (segment c (arcs_from (scale_of ds) 0 ds)) [0..<length ds]\<rparr>),
                  tooltip = Some part_000_tooltip\<rparr>
            else empty_page)"
  by (simp add: part_000_build_def pie_unsorted new_paths_eq length_arcs_from empty_page_def)


lemma path_at_build:
  "doc (divId c) \<Longrightarrow> i < length ds \<Longrightarrow>
     path_at (snd (part_000_build c doc ds)) i = Some (segment c (arcs_from (scale_of ds) 0 ds) i)"
  by (simp add: part_000_build_eq path_at_def)

lemma tooltip_build:
  "tooltip (snd (part_000_build c doc ds)) = (if doc (divId c) then Some part_000_tooltip else None)"
  by (simp add: part_000_build_eq empty_page_def)



section \<open>Handlers: helper lemmas\<close>

lemma path_at_update_path:
  "path_at (update_path i f p) j =
     (case path_at p j of None \<Rightarrow> None | Some e \<Rightarrow> Some (if j = i then f e else e))"
  by (cases "svg p") (auto simp: path_at_def update_path_def)

lemma path_at_set_display [simp]: "path_at (set_display v p) j = path_at p j"
  by (simp add: path_at_def set_display_def)

lemma path_at_set_kid [simp]: "path_at (set_kid s v p) j = path_at p j"
  by (simp add: path_at_def set_kid_def)

lemma tooltip_update_path [simp]: "tooltip (update_path i f p) = tooltip p"
  by (simp add: update_path_def)

lemma kids_update_path [simp]: "kids (update_path i f p) = kids p"
  by (simp add: kids_def)

lemma kids_set_display [simp]: "kids (set_display v p) = kids p"
  by (cases "tooltip p") (simp_all add: kids_def set_display_def)

lemma display_update_path [simp]: "display (update_path i f p) = display p"
  by (simp add: display_def)

lemma display_set_display:
  "display (set_display v p) = (case tooltip p of None \<Rightarrow> None | Some t \<Rightarrow> Some v)"
  by (cases "tooltip p") (simp_all add: display_def set_display_def)

lemma tooltip_set_display_None [simp]: "(tooltip (set_display v p) = None) = (tooltip p = None)"
  by (simp add: set_display_def)

lemma tooltip_set_kid_None [simp]: "(tooltip (set_kid s v p) = None) = (tooltip p = None)"
  by (simp add: set_kid_def)

lemma same_frame_refl: "same_frame p p"
  by (simp add: same_frame_def)

lemma same_frame_trans: "same_frame p q \<Longrightarrow> same_frame q r \<Longrightarrow> same_frame p r"
  by (simp add: same_frame_def)

lemma same_frame_update_path:
  "(\<And>e. bound (f e) = bound e) \<Longrightarrow> same_frame p (update_path i f p)"
  by (auto simp: same_frame_def path_at_update_path split: option.splits)

lemma same_frame_set_display: "same_frame p (set_display v p)"
  by (simp add: same_frame_def)

lemma same_frame_set_kid: "same_frame p (set_kid s v p)"
  by (simp add: same_frame_def)

lemma same_frame_part_000_step: "same_frame p (part_000_step c p ev)"
proof (cases ev)
  case (MouseOver i)
  have "same_frame p (part_000_mouseover c i p)"
    unfolding part_000_mouseover_def
    by (rule same_frame_trans[OF same_frame_update_path same_frame_set_display]) simp
  then show ?thesis using MouseOver by (simp add: same_frame_refl split: option.splits)
next
  case (MouseMove i x y)
  have "part_000_mousemove i x y d p = Inr q \<Longrightarrow> same_frame p q" for d q
    by (auto simp: part_000_mousemove_def same_frame_def path_at_def split: option.splits)
  then show ?thesis using MouseMove
    by (simp add: same_frame_refl split: option.splits sum.splits)
next
  case (MouseOut i)
  have "same_frame p (part_000_mouseout c i p)"
    unfolding part_000_mouseout_def
    by (rule same_frame_trans[OF same_frame_update_path same_frame_set_display]) simp
  then show ?thesis using MouseOut by (simp add: same_frame_refl split: option.splits)
qed

lemma same_frame_part_000_run: "same_frame p (part_000_run c p evs)"
  unfolding part_000_run_def
proof (induction evs arbitrary: p)
  case Nil
  show ?case by (simp add: same_frame_refl)
next
  case (Cons ev evs)
  show ?case
    using same_frame_trans[OF same_frame_part_000_step Cons.IH] by simp
qed

lemma same_frame_piechart_mouseover: "same_frame p (snd (piechart_mouseover env c i d p))"
proof -
  let ?p1 = "update_path i (\<lambda>e. e\<lparr>d_attr := Some (arc_path (arcOver c) (bound e))\<rparr>) p"
  have 1: "same_frame p ?p1" by (rule same_frame_update_path) simp
  have 2: "same_frame p (set_kid s v ?p1)" for s v
    by (rule same_frame_trans[OF 1 same_frame_set_kid])
  have 3: "same_frame p (set_display w (set_kid s' v' (set_kid s v ?p1)))" for s v s' v' w
    by (rule same_frame_trans[OF same_frame_trans[OF 2 same_frame_set_kid] same_frame_set_display])
  show ?thesis
    by (simp add: piechart_mouseover_def Let_def 1 2 3 split: sum.splits)
qed

lemma same_frame_piechart_step: "same_frame p (piechart_step env c p ev)"
proof (cases ev)
  case (MouseOver i)
  then show ?thesis
    by (simp add: same_frame_refl same_frame_piechart_mouseover split: option.splits)
next
  case (MouseMove i x y)
  then show ?thesis by (simp add: same_frame_refl)
next
  case (MouseOut i)
  have "same_frame p (piechart_mouseout c i p)"
    unfolding piechart_mouseout_def
    by (rule same_frame_trans[OF same_frame_update_path same_frame_set_display]) simp
  then show ?thesis using MouseOut by (simp add: same_frame_refl split: option.splits)
qed

lemma same_frame_piechart_run: "same_frame p (piechart_run env c p evs)"
  unfolding piechart_run_def
proof (induction evs arbitrary: p)
  case Nil
  show ?case by (simp add: same_frame_refl)
next
  case (Cons ev evs)
  show ?case
    using same_frame_trans[OF same_frame_piechart_step Cons.IH] by simp
qed

lemma same_frame_path:
  "same_frame p q \<Longrightarrow> path_at p i = Some e \<Longrightarrow> \<exists>e'. path_at q i = Some e' \<and> bound e' = bound e"
  by (auto simp: same_frame_def dest!: spec[of _ i])

lemma mouseout_effect:
  assumes "path_at q i = Some e'" and "tooltip q \<noteq> None"
  shows "shape_at (set_display ''none''
            (update_path i (\<lambda>e. e\<lparr>d_attr := Some (arc_path g (bound e))\<rparr>) q)) i
           = Some (arc_path g (bound e')) \<and>
         display (set_display ''none''
            (update_path i (\<lambda>e. e\<lparr>d_attr := Some (arc_path g (bound e))\<rparr>) q)) = Some ''none''"
  using assms
  by (auto simp: shape_at_def path_at_update_path display_set_display split: option.splits)

section \<open>Claims about the page\<close>








section \<open>Handlers after any sequence of events\<close>

lemma pie_by_pie_arcs:
  "pie lay ds =
     (case call_each (value_fn lay) ds of
        Inl e \<Rightarrow> Inl e
      | Inr vs \<Rightarrow> Inr (pie_arcs (sort_cmp lay) ds vs))"
  by (simp add: pie_def pie_arcs_def Let_def split: sum.splits)

lemma pie_arcs_unsorted: "pie_arcs None ds (map val ds) = arcs_from (scale_of ds) 0 ds"
  using pie_unsorted[of ds]
  by (simp add: pie_by_pie_arcs part_000_pie_def call_each_total)

lemma key_text_part_000_tooltip:
  "text_of_first (ByClass ''tooltipKey'') (tip_kids part_000_tooltip) = Some (Str [])"
  "text_of_first (ByClass ''tooltipValue'') (tip_kids part_000_tooltip) = Some (Str [])"
  by (simp_all add: part_000_tooltip_def new_div_def)

lemma kids_build:
  "kids (snd (part_000_build c doc ds)) = (if doc (divId c) then tip_kids part_000_tooltip else [])"
  by (simp add: kids_def tooltip_build)

text \<open>
  The value text is never written: the selector \<open>tooltipValue\<close> on line 83 has no
  leading dot, so it selects by tag name and finds no element.
\<close>

lemma set_first_tag_none: "t \<noteq> ''div'' \<Longrightarrow> set_first (ByTag t) v ks = ks"
  by (induction ks) auto

lemma text_of_first_other_class:
  "a \<noteq> b \<Longrightarrow> text_of_first (ByClass a) (set_first (ByClass b) v ks) = text_of_first (ByClass a) ks"
  by (induction ks) auto

lemma value_text_part_000_step: "value_text (part_000_step c p ev) = value_text p"
proof (cases ev)
  case (MouseOver i)
  then show ?thesis
    by (simp add: part_000_mouseover_def value_text_def split: option.splits)
next
  case (MouseMove i x y)
  then show ?thesis
    by (auto simp: part_000_mousemove_def value_text_def kids_def set_first_tag_none
        text_of_first_other_class split: option.splits)
next
  case (MouseOut i)
  then show ?thesis
    by (simp add: part_000_mouseout_def value_text_def split: option.splits)
qed

lemma value_text_part_000_run: "value_text (part_000_run c p evs) = value_text p"
  unfolding part_000_run_def
  by (induction evs arbitrary: p) (simp_all add: value_text_part_000_step)

text \<open>No handler changes the attributes of the tooltip's children.\<close>

lemma matches_text [simp]: "matches s (e\<lparr>div_text := t\<rparr>) = matches s e"
  by (cases s) simp_all

lemma attrs_set_first: "map div_attrs (set_first s v ks) = map div_attrs ks"
  by (induction ks) auto

lemma text_of_first_set_first:
  "text_of_first s (set_first s v ks) =
     (if \<exists>e \<in> set ks. matches s e then Some (to_text v) else None)"
  by (induction ks) auto

lemma matches_attrs: "div_attrs e = div_attrs e' \<Longrightarrow> matches s e = matches s e'"
  by (cases s) simp_all

lemma ex_match_attrs:
  "map div_attrs ks = map div_attrs ks' \<Longrightarrow>
     (\<exists>e \<in> set ks. matches s e) = (\<exists>e \<in> set ks'. matches s e)"
proof (induction ks arbitrary: ks')
  case Nil
  then show ?case by simp
next
  case (Cons k ks)
  then obtain k' ks'' where k': "ks' = k' # ks''" by (cases ks') auto
  with Cons.prems have "div_attrs k = div_attrs k'" "map div_attrs ks = map div_attrs ks''"
    by simp_all
  then show ?case
    using Cons.IH[of ks''] matches_attrs[of k k' s] k' by simp
qed

lemma kids_part_000_step_over: "kids (part_000_step c p (MouseOver i)) = kids p"
  by (simp add: part_000_mouseover_def split: option.splits)

lemma kids_part_000_step_out: "kids (part_000_step c p (MouseOut i)) = kids p"
  by (simp add: part_000_mouseout_def split: option.splits)

lemma kids_part_000_step_move:
  "kids (part_000_step c p (MouseMove i x y)) =
     (case path_at p i of
        None \<Rightarrow> kids p
      | Some e \<Rightarrow> set_first (ByClass ''tooltipKey'') (Str (name (data (bound e)))) (kids p))"
  by (cases "tooltip p")
    (auto simp: part_000_mousemove_def kids_def set_first_tag_none split: option.splits)

lemma attrs_part_000_step: "map div_attrs (kids (part_000_step c p ev)) = map div_attrs (kids p)"
  by (cases ev)
    (simp_all add: kids_part_000_step_over kids_part_000_step_out kids_part_000_step_move
      attrs_set_first del: part_000_step.simps split: option.splits)

lemma attrs_part_000_run: "map div_attrs (kids (part_000_run c p evs)) = map div_attrs (kids p)"
  unfolding part_000_run_def
  by (induction evs arbitrary: p) (simp_all add: attrs_part_000_step del: part_000_step.simps)

lemma part_000_run_snoc: "part_000_run c p (evs @ [ev]) = part_000_step c (part_000_run c p evs) ev"
  by (simp add: part_000_run_def)

lemma part_000_run_snoc2:
  "part_000_run c p (evs @ [ev, ev']) =
     part_000_step c (part_000_step c (part_000_run c p evs) ev) ev'"
  by (simp add: part_000_run_def)

text \<open>A pointer-enter and the pointer-move after it, after any events, on any page.\<close>

lemma mouseover_effect:
  assumes "path_at q i = Some e'" and "tooltip q \<noteq> None"
  shows "path_at (part_000_step c q (MouseOver i)) i =
           Some (e'\<lparr>d_attr := Some (arc_path (arcOver c) (bound e'))\<rparr>)"
    and "display (part_000_step c q (MouseOver i)) = Some ''inline''"
    and "tooltip (part_000_step c q (MouseOver i)) \<noteq> None"
  using assms
  by (auto simp: part_000_mouseover_def path_at_update_path display_set_display)

lemma key_text_after_move:
  assumes "path_at q i = Some e'" and "tooltip q \<noteq> None"
    and "\<exists>e \<in> set (kids q). matches (ByClass ''tooltipKey'') e"
  shows "key_text (part_000_step c q (MouseMove i x y)) = Some (Str (name (data (bound e'))))"
  using assms
  by (simp add: key_text_def kids_part_000_step_move text_of_first_set_first
      del: part_000_step.simps)

lemma key_match_part_000_tooltip:
  "\<exists>e \<in> set (tip_kids part_000_tooltip). matches (ByClass ''tooltipKey'') e"
  by (simp add: part_000_tooltip_def new_div_def)

lemma key_match_run:
  "doc (divId c) \<Longrightarrow>
     \<exists>e \<in> set (kids (part_000_run c (snd (part_000_build c doc ds)) evs)).
        matches (ByClass ''tooltipKey'') e"
  using ex_match_attrs[OF attrs_part_000_run, of c "snd (part_000_build c doc ds)" evs
      "ByClass ''tooltipKey''"] key_match_part_000_tooltip
  by (simp add: kids_build)

text \<open>
  C5 (as amended). In \<open>part_000\<close>, a segment's shape after construction and after
  every pointer-leave is the resting arc (inner radius \<open>radius - 20\<close>, outer radius
  \<open>radius - 10\<close>). After any sequence of pointer events, a pointer-enter event on the
  segment makes its shape the hover arc between the same angles (inner radius
  \<open>radius - 15\<close>, outer radius \<open>radius\<close>), sets the tooltip's display to \<open>inline\<close> and
  leaves the key text and the value text as they were; the pointer-move event that
  follows writes the segment's name into the key text.
\<close>

theorem hover_enter_then_move:
  assumes "doc (divId c)" and "i < length ds"
  shows "\<exists>d :: pie_arc. data d = ds ! i \<and>
     shape_at (snd (part_000_build c doc ds)) i =
       Some \<lparr>sh_inner = radius c - 20, sh_outer = radius c - 10,
             sh_start = startAngle d, sh_end = endAngle d\<rparr> \<and>
     shape_at (part_000_run c (snd (part_000_build c doc ds)) (evs @ [MouseOut i])) i =
       Some \<lparr>sh_inner = radius c - 20, sh_outer = radius c - 10,
             sh_start = startAngle d, sh_end = endAngle d\<rparr> \<and>
     shape_at (part_000_run c (snd (part_000_build c doc ds)) (evs @ [MouseOver i])) i =
       Some \<lparr>sh_inner = radius c - 15, sh_outer = radius c,
             sh_start = startAngle d, sh_end = endAngle d\<rparr> \<and>
     display (part_000_run c (snd (part_000_build c doc ds)) (evs @ [MouseOver i])) =
       Some ''inline'' \<and>
     key_text (part_000_run c (snd (part_000_build c doc ds)) (evs @ [MouseOver i])) =
       key_text (part_000_run c (snd (part_000_build c doc ds)) evs) \<and>
     value_text (part_000_run c (snd (part_000_build c doc ds)) (evs @ [MouseOver i])) =
       value_text (part_000_run c (snd (part_000_build c doc ds)) evs) \<and>
     key_text (part_000_run c (snd (part_000_build c doc ds))
         (evs @ [MouseOver i, MouseMove i x y])) =
       Some (Str (name (ds ! i)))"
proof -
  let ?arcs = "arcs_from (scale_of ds) 0 ds"
  let ?p0 = "snd (part_000_build c doc ds)"
  let ?q = "part_000_run c ?p0 evs"
  let ?q1 = "part_000_step c ?q (MouseOver i)"
  have pa: "path_at ?p0 i = Some (segment c ?arcs i)"
    using assms by (rule path_at_build)
  have tt: "tooltip ?p0 \<noteq> None"
    using assms(1) by (simp add: tooltip_build)
  have b0: "bound (segment c ?arcs i) = ?arcs ! i"
    by (simp add: segment_def)
  have d: "data (?arcs ! i) = ds ! i"
    using nth_arcs_from[OF assms(2)] by blast
  have fq: "same_frame ?p0 ?q" by (rule same_frame_part_000_run)
  from same_frame_path[OF fq pa] b0 obtain e1 where
    e1: "path_at ?q i = Some e1" "bound e1 = ?arcs ! i" by auto
  have tq: "tooltip ?q \<noteq> None" using fq tt by (simp add: same_frame_def)
  have s0: "shape_at ?p0 i = Some \<lparr>sh_inner = radius c - 20, sh_outer = radius c - 10,
             sh_start = startAngle (?arcs ! i), sh_end = endAngle (?arcs ! i)\<rparr>"
    using pa by (simp add: shape_at_def segment_def arc_path_def arc_def)
  have "part_000_run c ?p0 (evs @ [MouseOut i]) = part_000_mouseout c i ?q"
    using e1(1) by (simp add: part_000_run_snoc)
  then have so: "shape_at (part_000_run c ?p0 (evs @ [MouseOut i])) i =
       Some \<lparr>sh_inner = radius c - 20, sh_outer = radius c - 10,
             sh_start = startAngle (?arcs ! i), sh_end = endAngle (?arcs ! i)\<rparr>"
    using mouseout_effect[OF e1(1) tq, of "arc c"]
    by (simp add: part_000_mouseout_def e1(2) arc_path_def arc_def)
  note over = mouseover_effect[OF e1(1) tq, of c]
  have s1: "shape_at (part_000_run c ?p0 (evs @ [MouseOver i])) i =
       Some \<lparr>sh_inner = radius c - 15, sh_outer = radius c,
             sh_start = startAngle (?arcs ! i), sh_end = endAngle (?arcs ! i)\<rparr>"
    unfolding part_000_run_snoc using over(1)
    by (simp add: shape_at_def e1(2) arc_path_def arcOver_def)
  have d1: "display (part_000_run c ?p0 (evs @ [MouseOver i])) = Some ''inline''"
    unfolding part_000_run_snoc by (rule over(2))
  have kk: "kids (part_000_run c ?p0 (evs @ [MouseOver i])) = kids ?q"
    unfolding part_000_run_snoc by (rule kids_part_000_step_over)
  have k1: "key_text (part_000_run c ?p0 (evs @ [MouseOver i])) = key_text ?q"
    by (simp only: key_text_def kk)
  have v1: "value_text (part_000_run c ?p0 (evs @ [MouseOver i])) = value_text ?q"
    by (simp only: value_text_def kk)
  have m: "\<exists>e \<in> set (kids ?q1). matches (ByClass ''tooltipKey'') e"
    using key_match_run[of doc c ds evs, OF assms(1)] by (simp only: kids_part_000_step_over)
  have b1: "bound (e1\<lparr>d_attr := Some (arc_path (arcOver c) (bound e1))\<rparr>) = ?arcs ! i"
    using e1(2) by simp
  have k2: "key_text (part_000_run c ?p0 (evs @ [MouseOver i, MouseMove i x y])) =
       Some (Str (name (ds ! i)))"
    unfolding part_000_run_snoc2
    using key_text_after_move[OF over(1) over(3) m, where x = x and y = y] b1 d by simp
  have "data (?arcs ! i) = ds ! i \<and>
     shape_at ?p0 i =
       Some \<lparr>sh_inner = radius c - 20, sh_outer = radius c - 10,
             sh_start = startAngle (?arcs ! i), sh_end = endAngle (?arcs ! i)\<rparr> \<and>
     shape_at (part_000_run c ?p0 (evs @ [MouseOut i])) i =
       Some \<lparr>sh_inner = radius c - 20, sh_outer = radius c - 10,
             sh_start = startAngle (?arcs ! i), sh_end = endAngle (?arcs ! i)\<rparr> \<and>
     shape_at (part_000_run c ?p0 (evs @ [MouseOver i])) i =
       Some \<lparr>sh_inner = radius c - 15, sh_outer = radius c,
             sh_start = startAngle (?arcs ! i), sh_end = endAngle (?arcs ! i)\<rparr> \<and>
     display (part_000_run c ?p0 (evs @ [MouseOver i])) = Some ''inline'' \<and>
     key_text (part_000_run c ?p0 (evs @ [MouseOver i])) = key_text ?q \<and>
     value_text (part_000_run c ?p0 (evs @ [MouseOver i])) = value_text ?q \<and>
     key_text (part_000_run c ?p0 (evs @ [MouseOver i, MouseMove i x y])) =
       Some (Str (name (ds ! i)))"
    using d s0 so s1 d1 k1 v1 k2 by (intro conjI)
  then show ?thesis by (rule exI[where x = "arcs_from (scale_of ds) 0 ds ! i"])
qed

theorem hover_enter_then_move_witness:
  "\<exists>d :: pie_arc. data d = inputData ! 0 \<and>
     shape_at (snd (part_000_build part_000_config (\<lambda>s. True) inputData)) 0 =
       Some \<lparr>sh_inner = radius part_000_config - 20, sh_outer = radius part_000_config - 10,
             sh_start = startAngle d, sh_end = endAngle d\<rparr> \<and>
     shape_at (part_000_run part_000_config
         (snd (part_000_build part_000_config (\<lambda>s. True) inputData))
         ([MouseOver 1, MouseMove 1 5 5, MouseOut 1] @ [MouseOut 0])) 0 =
       Some \<lparr>sh_inner = radius part_000_config - 20, sh_outer = radius part_000_config - 10,
             sh_start = startAngle d, sh_end = endAngle d\<rparr> \<and>
     shape_at (part_000_run part_000_config
         (snd (part_000_build part_000_config (\<lambda>s. True) inputData))
         ([MouseOver 1, MouseMove 1 5 5, MouseOut 1] @ [MouseOver 0])) 0 =
       Some \<lparr>sh_inner = radius part_000_config - 15, sh_outer = radius part_000_config,
             sh_start = startAngle d, sh_end = endAngle d\<rparr> \<and>
     display (part_000_run part_000_config
         (snd (part_000_build part_000_config (\<lambda>s. True) inputData))
         ([MouseOver 1, MouseMove 1 5 5, MouseOut 1] @ [MouseOver 0])) = Some ''inline'' \<and>
     key_text (part_000_run part_000_config
         (snd (part_000_build part_000_config (\<lambda>s. True) inputData))
         ([MouseOver 1, MouseMove 1 5 5, MouseOut 1] @ [MouseOver 0])) =
       key_text (part_000_run part_000_config
         (snd (part_000_build part_000_config (\<lambda>s. True) inputData))
         [MouseOver 1, MouseMove 1 5 5, MouseOut 1]) \<and>
     value_text (part_000_run part_000_config
         (snd (part_000_build part_000_config (\<lambda>s. True) inputData))
         ([MouseOver 1, MouseMove 1 5 5, MouseOut 1] @ [MouseOver 0])) =
       value_text (part_000_run part_000_config
         (snd (part_000_build part_000_config (\<lambda>s. True) inputData))
         [MouseOver 1, MouseMove 1 5 5, MouseOut 1]) \<and>
     key_text (part_000_run part_000_config
         (snd (part_000_build part_000_config (\<lambda>s. True) inputData))
         ([MouseOver 1, MouseMove 1 5 5, MouseOut 1] @ [MouseOver 0, MouseMove 0 30 40])) =
       Some (Str ''Name 1'')"
proof -
  have 1: "(\<lambda>s. True) (divId part_000_config)" by simp
  have 2: "0 < length inputData" by (simp add: inputData_def)
  have 3: "name (inputData ! 0) = ''Name 1''" by (simp add: inputData_def)
  from hover_enter_then_move
    [OF 1 2, of part_000_config "[MouseOver 1, MouseMove 1 5 5, MouseOut 1]" 30 40]
  show ?thesis
    unfolding 3 .
qed

text \<open>
  The claim as stated fails on the first pointer-enter of \<open>part_000\<close>: the key text and
  the value text are still empty, not \<open>Name 1\<close> and 10.
\<close>

theorem hover_enter_leaves_text_counterexample:
  "key_text (part_000_step part_000_config
       (snd (part_000_build part_000_config (\<lambda>s. True) inputData)) (MouseOver 0))
     = Some (Str []) \<and>
   value_text (part_000_step part_000_config
       (snd (part_000_build part_000_config (\<lambda>s. True) inputData)) (MouseOver 0))
     = Some (Str []) \<and>
   name (inputData ! 0) = ''Name 1'' \<and> val (inputData ! 0) = 10"
proof -
  have pa: "path_at (snd (part_000_build part_000_config (\<lambda>s. True) inputData)) 0 \<noteq> None"
    by (simp add: path_at_build inputData_def)
  then show ?thesis
    by (auto simp: part_000_mouseover_def key_text_def value_text_def kids_build
        key_text_part_000_tooltip inputData_def)
qed

section \<open>The construction of piechart.js\<close>

lemma piechart_values_unbound:
  "env ''value'' = None \<Longrightarrow>
     piechart_values env ds = (if ds = [] then Inr [] else Inl (ReferenceError ''value''))"
  by (cases ds) (simp_all add: piechart_values_def piechart_value_def lookup_def)

lemma piechart_values_bound:
  "env ''value'' = Some k \<Longrightarrow> piechart_values env ds = Inr (map (\<lambda>d. datum_get d k) ds)"
  by (induction ds) (simp_all add: piechart_values_def piechart_value_def lookup_def)

lemma piechart_numbers_val: "piechart_numbers (map (\<lambda>d. Num (val d)) ds) = Some (map val ds)"
  by (induction ds) (simp_all add: piechart_numbers_def)

lemma piechart_build_error:
  "fst (piechart_build env c doc ds) =
     (if env ''value'' = None \<and> ds \<noteq> [] then Some (ReferenceError ''value'') else None)"
proof (cases "env ''value''")
  case None
  then show ?thesis
    by (simp add: piechart_build_def piechart_values_unbound)
next
  case (Some k)
  then show ?thesis
    by (simp add: piechart_build_def piechart_values_bound)
qed

lemma piechart_build_missing:
  "\<not> doc (divId c) \<Longrightarrow> snd (piechart_build env c doc ds) = Some empty_page"
  by (simp add: piechart_build_def empty_page_def split: sum.splits)

lemma piechart_build_bound:
  "env ''value'' = Some (Str ''value'') \<Longrightarrow> doc (divId c) \<Longrightarrow>
     piechart_build env c doc ds =
       (None, Some \<lparr>svg = Some ((new_svg c)\<lparr>paths :=
                       map (segment c (arcs_from (scale_of ds) 0 ds)) [0..<length ds]\<rparr>),
                    tooltip = Some (piechart_tooltip c)\<rparr>)"
  by (simp add: piechart_build_def piechart_values_bound piechart_numbers_val
      pie_arcs_unsorted new_paths_eq length_arcs_from)

lemma path_at_page:
  "path_at \<lparr>svg = Some (s\<lparr>paths := map f [0..<n]\<rparr>), tooltip = t\<rparr> i =
     (if i < n then Some (f i) else None)"
  by (simp add: path_at_def)

text \<open>
  C6. After any sequence of pointer events, with or without a pointer-move among them, a
  pointer-leave event on a segment sets its shape to the resting arc of its arc object
  and the tooltip's display to \<open>none\<close>, in both scripts; on the page \<open>part_000\<close> has
  built this is exactly the shape the segment had after construction (inner radius
  \<open>radius - 20\<close>, outer radius \<open>radius - 10\<close>).
\<close>

theorem hover_leave_restores_resting_arc:
  "(doc (divId c) \<and> i < length ds \<longrightarrow>
      (\<exists>d :: pie_arc. data d = ds ! i \<and>
         shape_at (snd (part_000_build c doc ds)) i =
           Some \<lparr>sh_inner = radius c - 20, sh_outer = radius c - 10,
                 sh_start = startAngle d, sh_end = endAngle d\<rparr>) \<and>
      shape_at (part_000_run c (snd (part_000_build c doc ds)) (evs @ [MouseOut i])) i =
        shape_at (snd (part_000_build c doc ds)) i \<and>
      display (part_000_run c (snd (part_000_build c doc ds)) (evs @ [MouseOut i])) =
        Some ''none'') \<and>
   (path_at p i = Some e \<and> tooltip p \<noteq> None \<longrightarrow>
      shape_at (part_000_run c p (evs @ [MouseOut i])) i = Some (arc_path (arc c) (bound e)) \<and>
      display (part_000_run c p (evs @ [MouseOut i])) = Some ''none'' \<and>
      shape_at (piechart_run env c p (evs @ [MouseOut i])) i = Some (arc_path (arc c) (bound e)) \<and>
      display (piechart_run env c p (evs @ [MouseOut i])) = Some ''none'')"
proof -
  have gen: "shape_at (part_000_run c p (evs @ [MouseOut i])) i = Some (arc_path (arc c) (bound e)) \<and>
      display (part_000_run c p (evs @ [MouseOut i])) = Some ''none'' \<and>
      shape_at (piechart_run env c p (evs @ [MouseOut i])) i = Some (arc_path (arc c) (bound e)) \<and>
      display (piechart_run env c p (evs @ [MouseOut i])) = Some ''none''"
    if pe: "path_at p i = Some e" and tt: "tooltip p \<noteq> None" for p e
  proof -
    let ?q = "part_000_run c p evs"
    let ?r = "piechart_run env c p evs"
    have fq: "same_frame p ?q" by (rule same_frame_part_000_run)
    have fr: "same_frame p ?r" by (rule same_frame_piechart_run)
    from same_frame_path[OF fq pe] obtain e1 where
      e1: "path_at ?q i = Some e1" "bound e1 = bound e" by blast
    from same_frame_path[OF fr pe] obtain e2 where
      e2: "path_at ?r i = Some e2" "bound e2 = bound e" by blast
    have tq: "tooltip ?q \<noteq> None" using fq tt by (simp add: same_frame_def)
    have tr: "tooltip ?r \<noteq> None" using fr tt by (simp add: same_frame_def)
    have q: "part_000_run c p (evs @ [MouseOut i]) = part_000_mouseout c i ?q"
      using e1(1) by (simp add: part_000_run_def)
    have r: "piechart_run env c p (evs @ [MouseOut i]) = piechart_mouseout c i ?r"
      using e2(1) by (simp add: piechart_run_def)
    show ?thesis
      unfolding q r part_000_mouseout_def piechart_mouseout_def
      using mouseout_effect[OF e1(1) tq, of "arc c"] mouseout_effect[OF e2(1) tr, of "arc c"]
      by (simp add: e1(2) e2(2))
  qed
  have built: "(\<exists>d :: pie_arc. data d = ds ! i \<and>
         shape_at (snd (part_000_build c doc ds)) i =
           Some \<lparr>sh_inner = radius c - 20, sh_outer = radius c - 10,
                 sh_start = startAngle d, sh_end = endAngle d\<rparr>) \<and>
      shape_at (part_000_run c (snd (part_000_build c doc ds)) (evs @ [MouseOut i])) i =
        shape_at (snd (part_000_build c doc ds)) i \<and>
      display (part_000_run c (snd (part_000_build c doc ds)) (evs @ [MouseOut i])) =
        Some ''none''"
    if d: "doc (divId c)" and i: "i < length ds"
  proof -
    let ?arcs = "arcs_from (scale_of ds) 0 ds"
    let ?p0 = "snd (part_000_build c doc ds)"
    have pa: "path_at ?p0 i = Some (segment c ?arcs i)"
      using d i by (rule path_at_build)
    have tt: "tooltip ?p0 \<noteq> None" using d by (simp add: tooltip_build)
    have da: "data (?arcs ! i) = ds ! i"
      using nth_arcs_from[OF i] by blast
    have s0: "shape_at ?p0 i = Some \<lparr>sh_inner = radius c - 20, sh_outer = radius c - 10,
             sh_start = startAngle (?arcs ! i), sh_end = endAngle (?arcs ! i)\<rparr>"
      using pa by (simp add: shape_at_def segment_def arc_path_def arc_def)
    have s0': "shape_at ?p0 i = Some (arc_path (arc c) (bound (segment c ?arcs i)))"
      using pa by (simp add: shape_at_def segment_def)
    have ex: "\<exists>d :: pie_arc. data d = ds ! i \<and>
         shape_at ?p0 i =
           Some \<lparr>sh_inner = radius c - 20, sh_outer = radius c - 10,
                 sh_start = startAngle d, sh_end = endAngle d\<rparr>"
      using da s0 by (intro exI[where x = "arcs_from (scale_of ds) 0 ds ! i"] conjI)
    from gen[OF pa tt] s0' ex show ?thesis by simp
  qed
  from gen built show ?thesis by blast
qed

theorem hover_leave_restores_resting_arc_witness:
  "shape_at (part_000_run part_000_config
       (snd (part_000_build part_000_config (\<lambda>s. True) inputData))
       ([MouseOver 2] @ [MouseOut 2])) 2 =
     shape_at (snd (part_000_build part_000_config (\<lambda>s. True) inputData)) 2 \<and>
   display (part_000_run part_000_config
       (snd (part_000_build part_000_config (\<lambda>s. True) inputData))
       ([MouseOver 2] @ [MouseOut 2])) = Some ''none'' \<and>
   (\<exists>pp. piechart_build [''value'' \<mapsto> Str ''value'', ''name'' \<mapsto> Str ''name'']
            piechart_config (\<lambda>s. True) inputData = (None, Some pp) \<and>
      shape_at (piechart_run [''value'' \<mapsto> Str ''value'', ''name'' \<mapsto> Str ''name'']
          piechart_config pp ([MouseOver 2] @ [MouseOut 2])) 2 =
        Some (arc_path (arc piechart_config) (arcs_from (2 * pi / 26) 0 inputData ! 2)) \<and>
      display (piechart_run [''value'' \<mapsto> Str ''value'', ''name'' \<mapsto> Str ''name'']
          piechart_config pp ([MouseOver 2] @ [MouseOut 2])) = Some ''none'')"
proof -
  define env :: env where "env = [''value'' \<mapsto> Str ''value'', ''name'' \<mapsto> Str ''name'']"
  define arcs where "arcs = arcs_from (2 * pi / 26) 0 inputData"
  define pp where "pp = \<lparr>svg = Some ((new_svg piechart_config)\<lparr>paths :=
                       map (segment piechart_config arcs) [0..<length inputData]\<rparr>),
              tooltip = Some (piechart_tooltip piechart_config)\<rparr>"
  define e where "e = segment piechart_config arcs 2"
  have sc: "scale_of inputData = 2 * pi / 26"
    by (simp add: scale_of_def inputData_def)
  have len: "2 < length inputData" by (simp add: inputData_def)
  have 1: "(\<lambda>s. True) (divId part_000_config) \<and> 2 < length inputData"
    using len by simp
  have b0: "piechart_build env piechart_config (\<lambda>s. True) inputData =
      (None, Some \<lparr>svg = Some ((new_svg piechart_config)\<lparr>paths :=
                       map (segment piechart_config (arcs_from (scale_of inputData) 0 inputData))
                         [0..<length inputData]\<rparr>),
              tooltip = Some (piechart_tooltip piechart_config)\<rparr>)"
    by (rule piechart_build_bound) (simp_all add: env_def)
  have b: "piechart_build env piechart_config (\<lambda>s. True) inputData = (None, Some pp)"
    using b0 by (simp only: sc pp_def arcs_def)
  have 2: "path_at pp 2 = Some e \<and> tooltip pp \<noteq> None"
  proof
    show "path_at pp 2 = Some e"
      using len by (simp only: pp_def e_def path_at_page if_True)
    show "tooltip pp \<noteq> None" by (simp add: pp_def)
  qed
  have 3: "bound e = arcs_from (2 * pi / 26) 0 inputData ! 2"
    by (simp add: e_def arcs_def segment_def)
  have a: "shape_at (part_000_run part_000_config
       (snd (part_000_build part_000_config (\<lambda>s. True) inputData))
       ([MouseOver 2] @ [MouseOut 2])) 2 =
     shape_at (snd (part_000_build part_000_config (\<lambda>s. True) inputData)) 2 \<and>
   display (part_000_run part_000_config
       (snd (part_000_build part_000_config (\<lambda>s. True) inputData))
       ([MouseOver 2] @ [MouseOut 2])) = Some ''none''"
    by (rule hover_leave_restores_resting_arc
      [of "\<lambda>s. True" part_000_config 2 inputData "[MouseOver 2]" pp e env,
        THEN conjunct1, THEN mp, OF 1, THEN conjunct2])
  have r: "shape_at (piechart_run env piechart_config pp ([MouseOver 2] @ [MouseOut 2])) 2
       = Some (arc_path (arc piechart_config) (bound e)) \<and>
     display (piechart_run env piechart_config pp ([MouseOver 2] @ [MouseOut 2]))
       = Some ''none''"
    by (rule hover_leave_restores_resting_arc
      [of "\<lambda>s. True" piechart_config 2 inputData "[MouseOver 2]" pp e env,
        THEN conjunct2, THEN mp, OF 2, THEN conjunct2, THEN conjunct2])
  have "piechart_build env piechart_config (\<lambda>s. True) inputData = (None, Some pp) \<and>
     shape_at (piechart_run env piechart_config pp ([MouseOver 2] @ [MouseOut 2])) 2
       = Some (arc_path (arc piechart_config) (arcs_from (2 * pi / 26) 0 inputData ! 2)) \<and>
     display (piechart_run env piechart_config pp ([MouseOver 2] @ [MouseOut 2]))
       = Some ''none''"
    using b r[unfolded 3] by (rule conjI)
  then have "\<exists>pp. piechart_build env piechart_config (\<lambda>s. True) inputData = (None, Some pp) \<and>
      shape_at (piechart_run env piechart_config pp ([MouseOver 2] @ [MouseOut 2])) 2 =
        Some (arc_path (arc piechart_config) (arcs_from (2 * pi / 26) 0 inputData ! 2)) \<and>
      display (piechart_run env piechart_config pp ([MouseOver 2] @ [MouseOut 2])) = Some ''none''"
    by (rule exI[where x = pp])
  then have "shape_at (part_000_run part_000_config
       (snd (part_000_build part_000_config (\<lambda>s. True) inputData))
       ([MouseOver 2] @ [MouseOut 2])) 2 =
     shape_at (snd (part_000_build part_000_config (\<lambda>s. True) inputData)) 2 \<and>
   display (part_000_run part_000_config
       (snd (part_000_build part_000_config (\<lambda>s. True) inputData))
       ([MouseOver 2] @ [MouseOut 2])) = Some ''none'' \<and>
   (\<exists>pp. piechart_build env piechart_config (\<lambda>s. True) inputData = (None, Some pp) \<and>
      shape_at (piechart_run env piechart_config pp ([MouseOver 2] @ [MouseOut 2])) 2 =
        Some (arc_path (arc piechart_config) (arcs_from (2 * pi / 26) 0 inputData ! 2)) \<and>
      display (piechart_run env piechart_config pp ([MouseOver 2] @ [MouseOut 2])) = Some ''none'')"
    using a by (simp only: conj_assoc simp_thms)
  then show ?thesis unfolding env_def .
qed

text \<open>
  C7 (as amended). If the container selector finds no element, construction changes
  nothing in the document (no drawing surface, no segment shape, no tooltip), and the
  missing container is not reported: \<open>part_000\<close> ends without an error, and
  \<open>piechart.js\<close> ends as it does with any document, with the ReferenceError of its
  value accessor when no variable \<open>value\<close> is in scope and the dataset is not empty, and
  without an error otherwise.
\<close>

theorem missing_container_builds_nothing:
  "\<not> doc (divId c) \<Longrightarrow>
     part_000_build c doc ds = (None, empty_page) \<and>
     snd (piechart_build env c doc ds) = Some empty_page \<and>
     fst (piechart_build env c doc ds) = fst (piechart_build env c doc' ds) \<and>
     fst (piechart_build env c doc ds) =
       (if env ''value'' = None \<and> ds \<noteq> [] then Some (ReferenceError ''value'') else None)"
  by (simp add: part_000_build_eq piechart_build_missing piechart_build_error)

theorem missing_container_builds_nothing_witness:
  "part_000_build part_000_config (\<lambda>s. s = ''#elsewhere'') inputData = (None, empty_page) \<and>
   piechart_build [''value'' \<mapsto> Str ''value''] piechart_config (\<lambda>s. s = ''#elsewhere'')
     inputData = (None, Some empty_page) \<and>
   piechart_build Map.empty piechart_config (\<lambda>s. s = ''#elsewhere'') inputData =
     (Some (ReferenceError ''value''), Some empty_page)"
proof -
  have 1: "\<not> (\<lambda>s. s = ''#elsewhere'') (divId part_000_config)"
    by (simp add: part_000_config_def)
  have 2: "\<not> (\<lambda>s. s = ''#elsewhere'') (divId piechart_config)"
    by (simp add: piechart_config_def)
  have 3: "inputData \<noteq> []" by (simp add: inputData_def)
  from missing_container_builds_nothing
    [of "\<lambda>s. s = ''#elsewhere''" part_000_config inputData Map.empty, OF 1]
  have a: "part_000_build part_000_config (\<lambda>s. s = ''#elsewhere'') inputData = (None, empty_page)"
    by blast
  from missing_container_builds_nothing
    [of "\<lambda>s. s = ''#elsewhere''" piechart_config inputData "[''value'' \<mapsto> Str ''value'']", OF 2]
  have b: "piechart_build [''value'' \<mapsto> Str ''value''] piechart_config
      (\<lambda>s. s = ''#elsewhere'') inputData = (None, Some empty_page)"
    by (simp add: prod_eq_iff)
  from missing_container_builds_nothing
    [of "\<lambda>s. s = ''#elsewhere''" piechart_config inputData Map.empty, OF 2] 3
  have c: "piechart_build Map.empty piechart_config (\<lambda>s. s = ''#elsewhere'') inputData =
     (Some (ReferenceError ''value''), Some empty_page)"
    by (simp add: prod_eq_iff)
  from a b c show ?thesis by blast
qed

text \<open>
  The claim as stated says construction fails with an error; \<open>part_000\<close> on a document
  with no element at all reports none.
\<close>

theorem missing_container_no_error_counterexample:
  "fst (part_000_build part_000_config (\<lambda>s. False) inputData) = None"
  by (simp add: part_000_build_eq)

text \<open>
  C8. With an empty dataset \<open>part_000\<close> ends without an error, and the page has no
  segment: the drawing surface, when the container exists, is the new \<open>svg\<close> element
  with no \<open>path\<close>. The accessor of \<open>piechart.js\<close> is not called either.
\<close>

theorem empty_dataset_builds_no_segment:
  "fst (part_000_build c doc []) = None \<and>
   segments (snd (part_000_build c doc [])) = [] \<and>
   svg (snd (part_000_build c doc [])) = (if doc (divId c) then Some (new_svg c) else None) \<and>
   paths (new_svg c) = [] \<and>
   piechart_values env [] = Inr []"
  by (simp add: part_000_build_eq segments_def empty_page_def new_svg_def piechart_values_def)

lemma call_each_first_throws: "f x = Inl e \<Longrightarrow> call_each f (x # xs) = Inl e"
  by simp

text \<open>
  C9. In \<open>piechart.js\<close>, when no variable \<open>name\<close> and no variable \<open>value\<close> is in scope,
  the accessor \<open>d[value]\<close> of the layout and the arguments \<open>d[name]\<close> and \<open>d[value]\<close>
  of the tooltip handler throw a ReferenceError on every datum and arc object: the
  layout of a dataset that is not empty throws, and the pointer-enter handler ends
  before it has written the tooltip's text or display.
\<close>

theorem bare_identifiers_throw:
  assumes "env ''name'' = None" and "env ''value'' = None"
  shows "piechart_value env d = Inl (ReferenceError ''value'') \<and>
         piechart_key_arg env a = Inl (ReferenceError ''name'') \<and>
         piechart_value_arg env a = Inl (ReferenceError ''value'') \<and>
         piechart_values env (d # ds) = Inl (ReferenceError ''value'') \<and>
         fst (piechart_mouseover env c i a p) = Some (ReferenceError ''name'') \<and>
         kids (snd (piechart_mouseover env c i a p)) = kids p \<and>
         display (snd (piechart_mouseover env c i a p)) = display p"
  using assms
  by (simp add: piechart_value_def piechart_key_arg_def piechart_value_arg_def lookup_def
      piechart_values_def piechart_mouseover_def)

theorem bare_identifiers_throw_witness:
  "piechart_value Map.empty \<lparr>name = ''Name 1'', val = 10\<rparr> = Inl (ReferenceError ''value'') \<and>
   piechart_key_arg Map.empty
       \<lparr>data = \<lparr>name = ''Name 1'', val = 10\<rparr>, arc_val = 10, startAngle = 0,
        endAngle = 10 * pi / 13, padAngle = 0\<rparr> = Inl (ReferenceError ''name'') \<and>
   piechart_values Map.empty inputData = Inl (ReferenceError ''value'')"
  using bare_identifiers_throw [of Map.empty "\<lparr>name = ''Name 1'', val = 10\<rparr>"
      "\<lparr>data = \<lparr>name = ''Name 1'', val = 10\<rparr>, arc_val = 10, startAngle = 0,
        endAngle = 10 * pi / 13, padAngle = 0\<rparr>" "tl inputData"]
  by (simp add: inputData_def)

lemma last_move_snoc:
  "last_move n (evs @ [ev]) =
     (case ev of
        MouseMove i x y \<Rightarrow> (if i < n then Some i else last_move n evs)
      | _ \<Rightarrow> last_move n evs)"
proof (induction evs)
  case Nil
  show ?case by (cases ev) simp_all
next
  case (Cons e evs)
  show ?case
  proof (cases e)
    case (MouseOver j)
    then show ?thesis using Cons.IH by (cases ev) simp_all
  next
    case (MouseMove j x y)
    then show ?thesis using Cons.IH by (cases ev) (simp_all split: option.splits)
  next
    case (MouseOut j)
    then show ?thesis using Cons.IH by (cases ev) simp_all
  qed
qed

lemma key_text_run:
  assumes "doc (divId c)"
  shows "key_text (part_000_run c (snd (part_000_build c doc ds)) evs) =
           Some (case last_move (length ds) evs of
                   None \<Rightarrow> Str []
                 | Some j \<Rightarrow> Str (name (ds ! j)))"
proof (induction evs rule: rev_induct)
  case Nil
  show ?case
    using assms
    by (simp add: part_000_run_def key_text_def kids_build key_text_part_000_tooltip)
next
  case (snoc ev evs)
  let ?arcs = "arcs_from (scale_of ds) 0 ds"
  let ?p0 = "snd (part_000_build c doc ds)"
  let ?q = "part_000_run c ?p0 evs"
  have fq: "same_frame ?p0 ?q" by (rule same_frame_part_000_run)
  have tq: "tooltip ?q \<noteq> None"
    using fq assms by (simp add: same_frame_def tooltip_build)
  show ?case
  proof (cases ev)
    case (MouseOver i)
    then show ?thesis
      using snoc.IH
      by (simp add: part_000_run_snoc last_move_snoc key_text_def kids_part_000_step_over
          del: part_000_step.simps)
  next
    case (MouseOut i)
    then show ?thesis
      using snoc.IH
      by (simp add: part_000_run_snoc last_move_snoc key_text_def kids_part_000_step_out
          del: part_000_step.simps)
  next
    case (MouseMove i x y)
    show ?thesis
    proof (cases "i < length ds")
      case True
      have pa: "path_at ?p0 i = Some (segment c ?arcs i)"
        using assms True by (rule path_at_build)
      from same_frame_path[OF fq pa] obtain e1 where
        e1: "path_at ?q i = Some e1" "bound e1 = bound (segment c ?arcs i)" by blast
      have d: "data (bound e1) = ds ! i"
        using nth_arcs_from[OF True, of "scale_of ds" 0] e1(2) by (simp add: segment_def)
      have "key_text (part_000_step c ?q (MouseMove i x y)) = Some (Str (name (ds ! i)))"
        using key_text_after_move[OF e1(1) tq key_match_run[of doc c ds evs, OF assms],
            where x = x and y = y] d
        by simp
      then show ?thesis
        using MouseMove True by (simp add: part_000_run_snoc last_move_snoc)
    next
      case False
      have "path_at ?q i = None"
      proof (cases "path_at ?q i")
        case None
        then show ?thesis .
      next
        case (Some e2)
        have "same_frame ?p0 ?q" by (rule fq)
        then have "map_option bound (path_at ?q i) = map_option bound (path_at ?p0 i)"
          by (simp add: same_frame_def)
        moreover have "path_at ?p0 i = None"
          using False assms by (simp add: part_000_build_eq path_at_def)
        ultimately show ?thesis by simp
      qed
      then show ?thesis
        using MouseMove False snoc.IH by (simp add: part_000_run_snoc last_move_snoc)
    qed
  qed
qed

text \<open>
  C10 (as amended). In \<open>part_000\<close> the handlers for pointer-enter and pointer-leave leave
  the tooltip's key text and value text as they are, after any sequence of events; the
  pointer-enter handler sets the display to \<open>inline\<close>. The texts are empty after
  construction. So between a pointer-enter and the next pointer-move the tooltip shows
  the text the events before left there: the key text is the name of the segment of the
  last pointer-move before the pointer-enter, and empty when there was none. It is the
  name of the segment now entered when that segment has the same name.
\<close>

theorem hover_enter_shows_stale_text:
  "key_text (part_000_run c p (evs @ [MouseOver i])) = key_text (part_000_run c p evs) \<and>
   value_text (part_000_run c p (evs @ [MouseOver i])) = value_text (part_000_run c p evs) \<and>
   key_text (part_000_run c p (evs @ [MouseOut i])) = key_text (part_000_run c p evs) \<and>
   value_text (part_000_run c p (evs @ [MouseOut i])) = value_text (part_000_run c p evs) \<and>
   (path_at p i \<noteq> None \<and> tooltip p \<noteq> None \<longrightarrow>
      display (part_000_run c p (evs @ [MouseOver i])) = Some ''inline'') \<and>
   key_text (snd (part_000_build c doc ds)) = (if doc (divId c) then Some (Str []) else None) \<and>
   value_text (snd (part_000_build c doc ds)) = (if doc (divId c) then Some (Str []) else None) \<and>
   (doc (divId c) \<longrightarrow>
      key_text (part_000_run c (snd (part_000_build c doc ds)) (evs @ [MouseOver i])) =
        Some (case last_move (length ds) evs of
                None \<Rightarrow> Str []
              | Some j \<Rightarrow> Str (name (ds ! j))))"
proof -
  have over: "kids (part_000_run c p (evs @ [MouseOver i])) = kids (part_000_run c p evs)" for p
    by (simp add: part_000_run_def kids_part_000_step_over del: part_000_step.simps)
  have out: "kids (part_000_run c p (evs @ [MouseOut i])) = kids (part_000_run c p evs)"
    by (simp add: part_000_run_def kids_part_000_step_out del: part_000_step.simps)
  have disp: "display (part_000_run c p (evs @ [MouseOver i])) = Some ''inline''"
    if pe: "path_at p i \<noteq> None" and tt: "tooltip p \<noteq> None"
  proof -
    let ?q = "part_000_run c p evs"
    have fq: "same_frame p ?q" by (rule same_frame_part_000_run)
    from pe obtain e where "path_at p i = Some e" by blast
    from same_frame_path[OF fq this] obtain e1 where e1: "path_at ?q i = Some e1" by blast
    have tq: "tooltip ?q \<noteq> None" using fq tt by (simp add: same_frame_def)
    show ?thesis
      unfolding part_000_run_snoc by (rule mouseover_effect(2)[OF e1 tq])
  qed
  have init: "key_text (snd (part_000_build c doc ds)) = (if doc (divId c) then Some (Str []) else None)"
    "value_text (snd (part_000_build c doc ds)) = (if doc (divId c) then Some (Str []) else None)"
    by (simp_all add: key_text_def value_text_def kids_build key_text_part_000_tooltip)
  have stale: "key_text (part_000_run c (snd (part_000_build c doc ds)) (evs @ [MouseOver i])) =
        Some (case last_move (length ds) evs of
                None \<Rightarrow> Str []
              | Some j \<Rightarrow> Str (name (ds ! j)))"
    if "doc (divId c)"
    using key_text_run[of doc c ds evs, OF that] by (simp add: key_text_def over)
  show ?thesis
    using disp stale
    by (simp add: key_text_def value_text_def over out init[unfolded key_text_def value_text_def])
qed

theorem hover_enter_shows_stale_text_witness:
  "key_text (part_000_run part_000_config
      (snd (part_000_build part_000_config (\<lambda>s. True) inputData))
      ([MouseOver 0, MouseMove 0 30 40, MouseOut 0] @ [MouseOver 1])) = Some (Str ''Name 1'') \<and>
   display (part_000_run part_000_config
      (snd (part_000_build part_000_config (\<lambda>s. True) inputData))
      ([MouseOver 0, MouseMove 0 30 40, MouseOut 0] @ [MouseOver 1])) = Some ''inline'' \<and>
   name (inputData ! 1) = ''Name 2''"
proof -
  let ?p0 = "snd (part_000_build part_000_config (\<lambda>s. True) inputData)"
  have len: "0 < length inputData" "1 < length inputData" by (simp_all add: inputData_def)
  have pa: "path_at ?p0 1 \<noteq> None \<and> tooltip ?p0 \<noteq> None"
    using len by (simp add: path_at_build tooltip_build)
  have lm: "last_move (length inputData) [MouseOver 0, MouseMove 0 30 40, MouseOut 0] = Some 0"
    using len by simp
  have n: "name (inputData ! 0) = ''Name 1''" "name (inputData ! 1) = ''Name 2''"
    by (simp_all add: inputData_def)
  from hover_enter_shows_stale_text
    [of part_000_config "snd (part_000_build part_000_config (\<lambda>s. True) inputData)"
      "[MouseOver 0, MouseMove 0 30 40, MouseOut 0]" 1 "\<lambda>s. True" inputData] pa
  have "key_text (part_000_run part_000_config ?p0
          ([MouseOver 0, MouseMove 0 30 40, MouseOut 0] @ [MouseOver 1])) =
        Some (case last_move (length inputData) [MouseOver 0, MouseMove 0 30 40, MouseOut 0] of
                None \<Rightarrow> Str []
              | Some j \<Rightarrow> Str (name (inputData ! j)))"
    and "display (part_000_run part_000_config ?p0
          ([MouseOver 0, MouseMove 0 30 40, MouseOut 0] @ [MouseOver 1])) = Some ''inline''"
    by blast+
  then show ?thesis
    unfolding lm using n by simp
qed

text \<open>
  The claim as stated ends: not the newly hovered segment's data. That fails when a
  segment is entered again after a session on it: before the first pointer-move of the
  second session the tooltip shows that segment's own name.
\<close>

theorem hover_again_shows_own_name_counterexample:
  "key_text (part_000_run part_000_config
      (snd (part_000_build part_000_config (\<lambda>s. True) inputData))
      [MouseOver 0, MouseMove 0 30 40, MouseOut 0, MouseOver 0]) =
     Some (Str (name (inputData ! 0))) \<and>
   display (part_000_run part_000_config
      (snd (part_000_build part_000_config (\<lambda>s. True) inputData))
      [MouseOver 0, MouseMove 0 30 40, MouseOut 0, MouseOver 0]) = Some ''inline'' \<and>
   name (inputData ! 0) = ''Name 1''"
proof -
  let ?p0 = "snd (part_000_build part_000_config (\<lambda>s. True) inputData)"
  let ?evs = "[MouseOver 0, MouseMove 0 30 40, MouseOut 0]"
  have len: "0 < length inputData" by (simp add: inputData_def)
  have lm: "last_move (length inputData) (?evs @ [MouseOver 0]) = Some 0"
    using len by simp
  have k: "key_text (part_000_run part_000_config ?p0 (?evs @ [MouseOver 0])) =
      Some (Str (name (inputData ! 0)))"
    using key_text_run[of "\<lambda>s. True" part_000_config inputData
        "[MouseOver 0, MouseMove 0 30 40, MouseOut 0] @ [MouseOver 0]"]
    unfolding lm by simp
  have fq: "same_frame ?p0 (part_000_run part_000_config ?p0 ?evs)"
    by (rule same_frame_part_000_run)
  have pa: "path_at ?p0 0 = Some (segment part_000_config
      (arcs_from (scale_of inputData) 0 inputData) 0)"
    using len by (simp add: path_at_build)
  from same_frame_path[OF fq pa] obtain e1 where
    e1: "path_at (part_000_run part_000_config ?p0 ?evs) 0 = Some e1" by blast
  have tq: "tooltip (part_000_run part_000_config ?p0 ?evs) \<noteq> None"
    using fq by (simp add: same_frame_def tooltip_build)
  have d: "display (part_000_run part_000_config ?p0 (?evs @ [MouseOver 0])) = Some ''inline''"
    unfolding part_000_run_snoc by (rule mouseover_effect(2)[OF e1 tq])
  have n: "name (inputData ! 0) = ''Name 1''" by (simp add: inputData_def)
  from k d n show ?thesis by simp
qed

end
